theory Spec2Isabelle
  imports Complex_Main "HOL-Library.Sublist"
begin

section \<open>Python strings\<close>

text \<open>
  A Python \<open>str\<close> is a sequence of Unicode code points and \<open>len\<close> counts code
  points, so a string is modelled as the list of its code points. Dictionary keys, paths
  and rate-limit keys of the source are plain ASCII and are kept as \<open>string\<close>.
\<close>

type_synonym pystr = "nat list"

text \<open>The code points for which \<open>str.isspace\<close> holds; \<open>str.strip\<close> removes them
  from both ends.\<close>

definition isspace :: "nat \<Rightarrow> bool" where
  "isspace c = (c \<in> set [9, 10, 11, 12, 13, 28, 29, 30, 31, 32, 133, 160, 5760,
     8192, 8193, 8194, 8195, 8196, 8197, 8198, 8199, 8200, 8201, 8202,
     8232, 8233, 8239, 8287, 12288])"

definition strip :: "pystr \<Rightarrow> pystr" where
  "strip s = rev (dropWhile isspace (rev (dropWhile isspace s)))"

text \<open>\<open>a in b\<close> on strings: \<open>a\<close> occurs in \<open>b\<close> as a contiguous run.\<close>

fun py_in :: "pystr \<Rightarrow> pystr \<Rightarrow> bool" where
  "py_in p [] = (p = [])"
| "py_in p (c # cs) = (prefix p (c # cs) \<or> py_in p cs)"

text \<open>\<open>s.split(sep)\<close> for a one-character separator, and \<open>sep.join(xs)\<close>.\<close>

fun py_split :: "nat \<Rightarrow> pystr \<Rightarrow> pystr list" where
  "py_split sep [] = [[]]"
| "py_split sep (c # cs) =
     (if c = sep then [] # py_split sep cs
      else (case py_split sep cs of [] \<Rightarrow> [[c]] | w # ws \<Rightarrow> (c # w) # ws))"

fun py_join :: "nat \<Rightarrow> pystr list \<Rightarrow> pystr" where
  "py_join sep [] = []"
| "py_join sep [w] = w"
| "py_join sep (w # v # ws) = w @ sep # py_join sep (v # ws)"

definition comma :: nat where
  "comma = 44"

section \<open>The emotion vocabulary (api/schemas/emotion.py)\<close>

datatype Emotion =
    JOY
  | HAPPINESS
  | EXCITEMENT
  | LOVE
  | GRATITUDE
  | HOPE
  | PRIDE
  | RELIEF
  | SATISFACTION
  | AMUSEMENT
  | CONFIDENCE
  | INSPIRATION
  | SADNESS
  | ANGER
  | FEAR
  | ANXIETY
  | FRUSTRATION
  | DISAPPOINTMENT
  | LONELINESS
  | GUILT
  | SHAME
  | REGRET
  | JEALOUSY
  | SURPRISE
  | CURIOSITY
  | CONFUSION
  | NOSTALGIA
  | EMPATHY
  | SYMPATHY
  | ANTICIPATION
  | MISCHIEF
  | SHYNESS
  | DETERMINATION
  | REUNION
  | FAREWELL
  | ENCOURAGEMENT
  | SUPPORT
  | TRUST

text \<open>Iterating over the enum visits the members in definition order.\<close>

definition all_emotions :: "Emotion list" where
  "all_emotions = [JOY, HAPPINESS, EXCITEMENT, LOVE, GRATITUDE, HOPE,
     PRIDE, RELIEF, SATISFACTION, AMUSEMENT, CONFIDENCE, INSPIRATION,
     SADNESS, ANGER, FEAR, ANXIETY, FRUSTRATION, DISAPPOINTMENT,
     LONELINESS, GUILT, SHAME, REGRET, JEALOUSY, SURPRISE,
     CURIOSITY, CONFUSION, NOSTALGIA, EMPATHY, SYMPATHY, ANTICIPATION,
     MISCHIEF, SHYNESS, DETERMINATION, REUNION, FAREWELL, ENCOURAGEMENT,
     SUPPORT, TRUST]"

text \<open>The member values, as code points of the Japanese tags.\<close>

fun emotion_value :: "Emotion \<Rightarrow> pystr" where
  "emotion_value JOY = [21916, 12403]"
| "emotion_value HAPPINESS = [24184, 12379]"
| "emotion_value EXCITEMENT = [33288, 22894]"
| "emotion_value LOVE = [24859, 24773]"
| "emotion_value GRATITUDE = [24863, 35613]"
| "emotion_value HOPE = [24076, 26395]"
| "emotion_value PRIDE = [35463, 12426]"
| "emotion_value RELIEF = [23433, 24515]"
| "emotion_value SATISFACTION = [28288, 36275]"
| "emotion_value AMUSEMENT = [27005, 12375, 12373]"
| "emotion_value CONFIDENCE = [33258, 20449]"
| "emotion_value INSPIRATION = [24863, 21205]"
| "emotion_value SADNESS = [24754, 12375, 12415]"
| "emotion_value ANGER = [24594, 12426]"
| "emotion_value FEAR = [24656, 12428]"
| "emotion_value ANXIETY = [19981, 23433]"
| "emotion_value FRUSTRATION = [33499, 31435, 12385]"
| "emotion_value DISAPPOINTMENT = [22833, 26395]"
| "emotion_value LONELINESS = [23396, 29420]"
| "emotion_value GUILT = [32618, 24746, 24863]"
| "emotion_value SHAME = [24677]"
| "emotion_value REGRET = [24460, 24724]"
| "emotion_value JEALOUSY = [23241, 22956]"
| "emotion_value SURPRISE = [39514, 12365]"
| "emotion_value CURIOSITY = [22909, 22855, 24515]"
| "emotion_value CONFUSION = [22256, 24785]"
| "emotion_value NOSTALGIA = [25040, 12363, 12375, 12373]"
| "emotion_value EMPATHY = [20849, 24863]"
| "emotion_value SYMPATHY = [21516, 24773]"
| "emotion_value ANTICIPATION = [26399, 24453]"
| "emotion_value MISCHIEF = [12356, 12383, 12378, 12425, 24515]"
| "emotion_value SHYNESS = [24677, 12378, 12363, 12375, 12373]"
| "emotion_value DETERMINATION = [27770, 24847]"
| "emotion_value REUNION = [20877, 20250]"
| "emotion_value FAREWELL = [21029, 12428]"
| "emotion_value ENCOURAGEMENT = [21169, 12414, 12375]"
| "emotion_value SUPPORT = [25903, 12360]"
| "emotion_value TRUST = [20449, 38972]"

section \<open>Emotion extraction (core/llm/base.py)\<close>

text \<open>
  \<open>list(set(xs))\<close> enumerates the distinct elements of \<open>xs\<close> in the iteration order
  of a Python set, which follows the members' hash values (for enum members the salted
  string hash of the member name) and is not fixed by the language. The enumeration is
  therefore a parameter; \<open>set_iteration\<close> says what is known of it.
\<close>

definition set_iteration :: "('a list \<Rightarrow> 'a list) \<Rightarrow> bool" where
  "set_iteration list_set = (\<forall>xs. distinct (list_set xs) \<and> set (list_set xs) = set xs)"

text \<open>\<open>BaseLLM._extract_emotions\<close>.\<close>

definition BaseLLM_extract_emotions ::
    "(Emotion list \<Rightarrow> Emotion list) \<Rightarrow> pystr \<Rightarrow> Emotion list" where
  "BaseLLM_extract_emotions list_set emotion_text =
     (let emotions = filter (\<lambda>emotion. py_in (emotion_value emotion) emotion_text) all_emotions;
          unique_emotions = list_set emotions
      in take 5 unique_emotions)"

text \<open>A reply naming six tags, in the order JOY, HAPPINESS, EXCITEMENT, LOVE, GRATITUDE,
  HOPE.\<close>

definition six_tags :: pystr where
  "six_tags = emotion_value JOY @ emotion_value HAPPINESS @ emotion_value EXCITEMENT
     @ emotion_value LOVE @ emotion_value GRATITUDE @ emotion_value HOPE"

section \<open>The rate limiter (api/middleware/rate_limit.py)\<close>

text \<open>
  \<open>time.time()\<close> returns seconds as a float; instants are modelled as rationals and
  passed to each method that reads the clock. The limiter's two dictionaries are maps:
  \<open>request_counts\<close> holds the deque of admitted instants per identity (oldest first),
  \<open>burst_counts\<close> the burst counter. A leading underscore of a method name is dropped.
\<close>

record limits =
  rpm :: int
  rph :: int
  burst :: int

record RateLimiter =
  enabled :: bool
  default_rpm :: int
  default_rph :: int
  burst_limit :: int
  endpoint_limits :: "(string \<times> limits) list"
  request_counts :: "string \<rightharpoonup> rat list"
  burst_counts :: "string \<rightharpoonup> int"
  last_cleanup :: rat
  cleanup_interval :: rat

text \<open>\<open>_load_endpoint_limits\<close> with no environment variable set.\<close>

definition load_endpoint_limits :: "(string \<times> limits) list" where
  "load_endpoint_limits =
     [(''/save'', \<lparr>rpm = 30, rph = 500, burst = 5\<rparr>),
      (''/search'', \<lparr>rpm = 60, rph = 1000, burst = 10\<rparr>),
      (''/memories'', \<lparr>rpm = 30, rph = 300, burst = 5\<rparr>),
      (''/debug/test-memory'', \<lparr>rpm = 10, rph = 50, burst = 2\<rparr>),
      (''/debug/backup'', \<lparr>rpm = 10, rph = 50, burst = 2\<rparr>)]"

text \<open>\<open>RateLimiter.__init__\<close> at instant \<open>now\<close>, with no environment variable set.\<close>

definition RateLimiter_init :: "rat \<Rightarrow> RateLimiter" where
  "RateLimiter_init now =
     \<lparr>enabled = True, default_rpm = 60, default_rph = 1000, burst_limit = 10,
      endpoint_limits = load_endpoint_limits,
      request_counts = Map.empty, burst_counts = Map.empty,
      last_cleanup = now, cleanup_interval = 300\<rparr>"

definition get_endpoint_limits :: "RateLimiter \<Rightarrow> string \<Rightarrow> limits" where
  "get_endpoint_limits self endpoint =
     (case map_of (endpoint_limits self) endpoint of
        Some l \<Rightarrow> l
      | None \<Rightarrow>
          (case find (\<lambda>(pattern, l). pattern \<noteq> [] \<and> last pattern = CHR ''*''
                        \<and> prefix (butlast pattern) endpoint) (endpoint_limits self) of
             Some (pattern, l) \<Rightarrow> l
           | None \<Rightarrow> \<lparr>rpm = default_rpm self, rph = default_rph self, burst = burst_limit self\<rparr>))"

text \<open>\<open>_cleanup_old_requests\<close>: the loop over the keys acts on each key by itself, so it is
  written pointwise.\<close>

definition cleanup_old_requests :: "rat \<Rightarrow> RateLimiter \<Rightarrow> RateLimiter" where
  "cleanup_old_requests now self =
     (if now - last_cleanup self < cleanup_interval self then self
      else
        (let cutoff_time = now - 3600;
             pruned = (\<lambda>key. map_option (dropWhile (\<lambda>t. t < cutoff_time)) (request_counts self key))
         in self\<lparr>request_counts := (\<lambda>key. if pruned key = Some [] then None else pruned key),
                 burst_counts := (\<lambda>key. if pruned key = Some [] then None else burst_counts self key),
                 last_cleanup := now\<rparr>))"

text \<open>The second component of \<open>_check_rate_limit\<close>'s result.\<close>

datatype details =
    Exceeded string int rat
  | Within int int int limits

text \<open>\<open>dict.get(key, default)\<close>.\<close>

definition get_default :: "('k \<rightharpoonup> 'v) \<Rightarrow> 'k \<Rightarrow> 'v \<Rightarrow> 'v" where
  "get_default d key dflt = (case d key of None \<Rightarrow> dflt | Some v \<Rightarrow> v)"

text \<open>\<open>sum(1 for t in request_times if t > cutoff)\<close> and
  \<open>next((t for t in request_times if t > cutoff), now)\<close>.\<close>

definition count_after :: "rat \<Rightarrow> rat list \<Rightarrow> int" where
  "count_after cutoff request_times = int (length (filter (\<lambda>t. t > cutoff) request_times))"

definition oldest_after :: "rat \<Rightarrow> rat list \<Rightarrow> rat \<Rightarrow> rat" where
  "oldest_after cutoff request_times now =
     (case find (\<lambda>t. t > cutoff) request_times of None \<Rightarrow> now | Some t \<Rightarrow> t)"

text \<open>\<open>_check_rate_limit\<close>, in two parts: \<open>check_minute_hour\<close> is the part after the
  burst check (the per-minute and the per-hour cap), \<open>check_rate_limit_key\<close> the whole
  method. Reading \<open>self.request_counts[key]\<close> of the \<open>defaultdict\<close> creates an empty
  deque for a key that has none.\<close>

definition check_minute_hour ::
    "rat \<Rightarrow> limits \<Rightarrow> int \<Rightarrow> string \<Rightarrow> RateLimiter \<Rightarrow> (bool \<times> details) \<times> RateLimiter" where
  "check_minute_hour now limits current_burst rate_limit_key self =
     (let minute_cutoff = now - 60;
          request_times = get_default (request_counts self) rate_limit_key [];
          self1 = self\<lparr>request_counts := (request_counts self)(rate_limit_key \<mapsto> request_times)\<rparr>;
          minute_requests = count_after minute_cutoff request_times
      in if minute_requests \<ge> rpm limits then
           ((False, Exceeded ''minute_limit_exceeded'' (rpm limits)
                      (60 - (now - oldest_after minute_cutoff request_times now))), self1)
         else
           (let hour_cutoff = now - 3600;
                hour_requests = count_after hour_cutoff request_times
            in if hour_requests \<ge> rph limits then
                 ((False, Exceeded ''hour_limit_exceeded'' (rph limits)
                            (3600 - (now - oldest_after hour_cutoff request_times now))), self1)
               else ((True, Within minute_requests hour_requests current_burst limits), self1)))"

definition check_rate_limit_key ::
    "rat \<Rightarrow> string \<Rightarrow> string \<Rightarrow> RateLimiter \<Rightarrow> (bool \<times> details) \<times> RateLimiter" where
  "check_rate_limit_key now rate_limit_key endpoint self =
     (let limits = get_endpoint_limits self endpoint;
          current_burst = get_default (burst_counts self) rate_limit_key 0
      in if current_burst \<ge> burst limits then
           (let request_times = get_default (request_counts self) rate_limit_key []
            in if request_times \<noteq> [] \<and> now - last request_times \<ge> 1 then
                 check_minute_hour now limits current_burst rate_limit_key
                   (self\<lparr>burst_counts := (burst_counts self)(rate_limit_key \<mapsto> 0)\<rparr>)
               else
                 ((False, Exceeded ''burst_limit_exceeded'' (burst limits)
                            (if request_times \<noteq> [] then 1 - (now - last request_times) else 1)),
                  self))
         else check_minute_hour now limits current_burst rate_limit_key self)"

text \<open>\<open>_record_request\<close>; the clean-up it ends with reads the clock again
  (\<open>now_cleanup\<close>).\<close>

definition record_request :: "rat \<Rightarrow> rat \<Rightarrow> string \<Rightarrow> RateLimiter \<Rightarrow> RateLimiter" where
  "record_request now now_cleanup rate_limit_key self =
     cleanup_old_requests now_cleanup
       (self\<lparr>request_counts := (request_counts self)
                 (rate_limit_key \<mapsto> get_default (request_counts self) rate_limit_key [] @ [now]),
              burst_counts := (burst_counts self)
                 (rate_limit_key \<mapsto> get_default (burst_counts self) rate_limit_key 0 + 1)\<rparr>)"

text \<open>The request as the limiter reads it: the path, the key the authentication layer
  left in \<open>request.state.auth_result\<close> (if any) and the client's address (if any).\<close>

record Request =
  path :: string
  auth_rate_limit_key :: "string option"
  client_host :: "string option"

definition get_rate_limit_key :: "Request \<Rightarrow> string" where
  "get_rate_limit_key request =
     (case auth_rate_limit_key request of
        Some k \<Rightarrow> k
      | None \<Rightarrow> ''ip:'' @ (case client_host request of Some h \<Rightarrow> h | None \<Rightarrow> ''unknown''))"

text \<open>\<open>RateLimiter.check_rate_limit\<close>: the admission decision and the limiter after it.
  Nothing suspends between the clock reads of one admission; they are the one instant
  \<open>now\<close>.\<close>

definition check_rate_limit :: "rat \<Rightarrow> Request \<Rightarrow> RateLimiter \<Rightarrow> bool \<times> RateLimiter" where
  "check_rate_limit now request self =
     (if \<not> enabled self then (True, self)
      else if path request \<in> set [''/'', ''/health'', ''/docs'', ''/redoc'', ''/openapi.json'']
      then (True, self)
      else
        (let rate_limit_key = get_rate_limit_key request;
             endpoint = path request
         in case check_rate_limit_key now rate_limit_key endpoint self of
              ((allowed, d), self1) \<Rightarrow>
                if allowed then (True, record_request now now rate_limit_key self1)
                else (False, self1)))"

section \<open>Exceptions, providers and the world\<close>

text \<open>
  The exceptions the pipeline tells apart. \<open>LLMTimeoutError\<close> and \<open>LLMQuotaError\<close>
  are subclasses of \<open>LLMError\<close>; \<open>Fault n\<close> stands for any other exception a provider
  or the storage engine raises.
\<close>

datatype pyexn =
    LLMError | LLMTimeoutError | LLMQuotaError
  | RuntimeError | ValueError | KeyError | IndexError | TypeError
  | Fault nat

definition is_LLMError :: "pyexn \<Rightarrow> bool" where
  "is_LLMError e = (e = LLMError \<or> e = LLMTimeoutError \<or> e = LLMQuotaError)"

text \<open>The error strings of the responses, by the prefix the code puts before
  \<open>str(e)\<close>.\<close>

datatype error_text =
    LLM_processing_error pyexn
  | Memory_save_error pyexn
  | Search_error pyexn
  | Unexpected_error pyexn
  | Processing_exception pyexn

text \<open>A UUID and its canonical string are identified; datetimes are integers
  (microseconds); floats are rationals.\<close>

type_synonym uuid = nat
type_synonym datetime = int

record LLMRequest =
  llm_user_message :: pystr
  llm_ai_message :: pystr
  llm_context_window :: "(pystr \<times> pystr) list list option"
  llm_session_id :: "pystr option"
  llm_user_id :: "pystr option"

record LLMResponse =
  llm_summary :: pystr
  llm_emotions :: "Emotion list"

text \<open>The save request with the fields the endpoints and the service read.\<close>

record SaveRequest =
  user_message :: pystr
  ai_message :: pystr
  user_id :: "pystr option"
  session_id :: "pystr option"
  app_name :: "pystr option"
  context_window :: "(pystr \<times> pystr) list list option"

text \<open>Modelled from the spec: the class \<open>SaveResponse\<close> is imported from
  \<open>api.schemas\<close> but declared in none of the source files. The fields are those of the
  spec's Save output, \<open>{success, memory_id, summary, emotions[], processing_time_ms,
  error?}\<close>, which are the keywords the service constructs it with; a field that is not
  given is \<open>None\<close>. The processing time (a clock difference) is left out.\<close>

record SaveResponse =
  success :: bool
  memory_id :: "uuid option"
  summary :: "pystr option"
  emotions :: "Emotion list option"
  error :: "error_text option"

record Memory =
  m_id :: uuid
  m_summary :: pystr
  m_emotions :: "Emotion list"
  m_original_user :: pystr
  m_original_ai :: pystr
  m_user_id :: "pystr option"
  m_session_id :: "pystr option"
  m_app_name :: "pystr option"
  m_created_at :: datetime
  m_embedding :: "rat list option"

text \<open>The metadata dictionary of a stored record; a key that is absent is \<open>None\<close>.\<close>

record metadata =
  md_summary :: "pystr option"
  md_emotions :: "pystr option"
  md_user_id :: "pystr option"
  md_session_id :: "pystr option"
  md_app_name :: "pystr option"
  md_created_at :: "pystr option"
  md_original_user :: "pystr option"
  md_original_ai :: "pystr option"

record SearchRequest =
  query :: pystr
  top_k :: int
  emotion_filter :: "Emotion list option"
  q_user_id :: "pystr option"
  date_from :: "datetime option"
  date_to :: "datetime option"

text \<open>The answer of \<open>collection.query\<close> for one query embedding: one inner list per
  query embedding.\<close>

record query_results =
  ids :: "uuid list list"
  metadatas :: "metadata list list"
  distances :: "rat list list"

text \<open>One entry of the list \<open>ChromaMemoryStore.search_memories\<close> returns.\<close>

record search_result =
  r_id :: uuid
  r_score :: rat
  r_metadata :: metadata
  r_summary :: pystr
  r_emotions :: "pystr list"

text \<open>Modelled from the spec: the \<open>SearchResponse\<close> the service constructs
  (\<open>success, results, total_count, processing_time_ms, error\<close>, the spec's Search output)
  is not the class of that name in api/schemas/memory.py. The processing time is left
  out.\<close>

record SearchResponse =
  s_success :: bool
  s_results :: "search_result list"
  s_total_count :: nat
  s_error :: "error_text option"

text \<open>
  The external collaborators: the summarizer, the embedder, the storage engine's
  \<open>collection.add\<close> (\<open>None\<close> when it returns, the exception otherwise) and
  \<open>collection.query\<close>, and the datetime library.
\<close>

record env =
  process_memory :: "LLMRequest \<Rightarrow> pyexn + LLMResponse"
  get_embedding :: "pystr \<Rightarrow> pyexn + rat list"
  collection_add :: "uuid \<Rightarrow> pyexn option"
  collection_query :: "rat list \<Rightarrow> int \<Rightarrow> pystr option \<Rightarrow> pyexn + query_results"
  fromisoformat :: "pystr \<Rightarrow> datetime option"
  isoformat :: "datetime \<Rightarrow> pystr"
  utcnow :: datetime

text \<open>
  The world a request runs in: the log of the calls made so far (oldest first), the
  records the engine holds, and the supply of fresh identifiers \<open>uuid4\<close> draws from.
\<close>

datatype call =
    Uuid4 uuid
  | Summarizer LLMRequest
  | Embedder pystr
  | CollectionAdd uuid
  | CollectionQuery int "pystr option"

record world =
  calls :: "call list"
  stored :: "(uuid \<times> metadata \<times> rat list) list"
  next_uuid :: nat

definition uuid4 :: "world \<Rightarrow> uuid \<times> world" where
  "uuid4 w = (next_uuid w, w\<lparr>calls := calls w @ [Uuid4 (next_uuid w)], next_uuid := Suc (next_uuid w)\<rparr>)"

definition llm_client_process_memory :: "env \<Rightarrow> LLMRequest \<Rightarrow> world \<Rightarrow> (pyexn + LLMResponse) \<times> world" where
  "llm_client_process_memory e llm_request w =
     (process_memory e llm_request, w\<lparr>calls := calls w @ [Summarizer llm_request]\<rparr>)"

definition embedding_client_get_embedding :: "env \<Rightarrow> pystr \<Rightarrow> world \<Rightarrow> (pyexn + rat list) \<times> world" where
  "embedding_client_get_embedding e text w =
     (get_embedding e text, w\<lparr>calls := calls w @ [Embedder text]\<rparr>)"

text \<open>\<open>collection.add\<close>: the engine either takes the record or raises and keeps
  nothing of it.\<close>

definition collection_add_call ::
    "env \<Rightarrow> uuid \<Rightarrow> rat list \<Rightarrow> metadata \<Rightarrow> world \<Rightarrow> pyexn option \<times> world" where
  "collection_add_call e i embedding md w =
     (case collection_add e i of
        None \<Rightarrow> (None, w\<lparr>calls := calls w @ [CollectionAdd i], stored := stored w @ [(i, md, embedding)]\<rparr>)
      | Some x \<Rightarrow> (Some x, w\<lparr>calls := calls w @ [CollectionAdd i]\<rparr>))"

definition collection_query_call ::
    "env \<Rightarrow> rat list \<Rightarrow> int \<Rightarrow> pystr option \<Rightarrow> world \<Rightarrow> (pyexn + query_results) \<times> world" where
  "collection_query_call e query_embedding n_results where_filter w =
     (collection_query e query_embedding n_results where_filter,
      w\<lparr>calls := calls w @ [CollectionQuery n_results where_filter]\<rparr>)"

section \<open>The storage client and the memory store (infrastructure/db)\<close>

text \<open>\<open>x or ""\<close> on an optional string.\<close>

definition or_empty :: "pystr option \<Rightarrow> pystr" where
  "or_empty x = (case x of None \<Rightarrow> [] | Some v \<Rightarrow> v)"

text \<open>\<open>x or None\<close> on an optional string.\<close>

definition or_None :: "pystr option \<Rightarrow> pystr option" where
  "or_None x = (case x of None \<Rightarrow> None | Some v \<Rightarrow> if v = [] then None else Some v)"

text \<open>\<open>ChromaDBClient.add_memory\<close>: the keys of \<open>metadata\<close> override the two the
  client sets itself.\<close>

definition ChromaDBClient_add_memory ::
    "env \<Rightarrow> uuid \<Rightarrow> pystr \<Rightarrow> pystr list \<Rightarrow> rat list \<Rightarrow> metadata \<Rightarrow> world \<Rightarrow> bool \<times> world" where
  "ChromaDBClient_add_memory e i summary_text emotion_names embedding md w =
     (let memory_metadata = md
            \<lparr>md_emotions := (case md_emotions md of None \<Rightarrow> Some (py_join comma emotion_names) | Some v \<Rightarrow> Some v),
             md_summary := (case md_summary md of None \<Rightarrow> Some summary_text | Some v \<Rightarrow> Some v)\<rparr>
      in case collection_add_call e i embedding memory_metadata w of
           (None, w1) \<Rightarrow> (True, w1)
         | (Some x, w1) \<Rightarrow> (False, w1))"

text \<open>\<open>ChromaDBClient.search_memories\<close>: a failing query is answered with empty
  results.\<close>

definition ChromaDBClient_search_memories ::
    "env \<Rightarrow> rat list \<Rightarrow> int \<Rightarrow> pystr option \<Rightarrow> world \<Rightarrow> query_results \<times> world" where
  "ChromaDBClient_search_memories e query_embedding k where_filter w =
     (case collection_query_call e query_embedding k where_filter w of
        (Inr results, w1) \<Rightarrow> (results, w1)
      | (Inl x, w1) \<Rightarrow> (\<lparr>ids = [[]], metadatas = [[]], distances = [[]]\<rparr>, w1))"

text \<open>\<open>ChromaMemoryStore.save_memory\<close>.\<close>

definition ChromaMemoryStore_save_memory :: "env \<Rightarrow> Memory \<Rightarrow> world \<Rightarrow> bool \<times> world" where
  "ChromaMemoryStore_save_memory e memory w =
     (let emotion_names = map emotion_value (m_emotions memory);
          md = \<lparr>md_summary = Some (m_summary memory),
                md_emotions = Some (py_join comma emotion_names),
                md_user_id = Some (or_empty (m_user_id memory)),
                md_session_id = Some (or_empty (m_session_id memory)),
                md_app_name = Some (or_empty (m_app_name memory)),
                md_created_at = Some (isoformat e (m_created_at memory)),
                md_original_user = Some (m_original_user memory),
                md_original_ai = Some (m_original_ai memory)\<rparr>
      in case m_embedding memory of
           Some (x # xs) \<Rightarrow>
             ChromaDBClient_add_memory e (m_id memory) (m_summary memory) emotion_names (x # xs) md w
         | _ \<Rightarrow>
             (case embedding_client_get_embedding e (m_summary memory) w of
                (Inl x, w1) \<Rightarrow> (False, w1)
              | (Inr embedding, w1) \<Rightarrow>
                  ChromaDBClient_add_memory e (m_id memory) (m_summary memory) emotion_names embedding md w1))"

text \<open>
  The two post-filters of \<open>search_memories\<close> and \<open>get_memories_by_filter\<close> on one
  candidate: \<open>Inr False\<close> is the \<open>continue\<close>, \<open>Inl\<close> the exception
  \<open>fromisoformat\<close> raises. A datetime is always truthy; an empty list is not.
\<close>

definition passes_filters ::
    "env \<Rightarrow> Emotion list option \<Rightarrow> datetime option \<Rightarrow> datetime option \<Rightarrow> metadata \<Rightarrow> pyexn + bool" where
  "passes_filters e emotions_opt d_from d_to md =
     (let emotion_ok =
            (case emotions_opt of
               Some (f # fs) \<Rightarrow>
                 (let memory_emotions = py_split comma (or_empty (md_emotions md));
                      emotion_values = map emotion_value (f # fs)
                  in list_ex (\<lambda>emotion. emotion \<in> set memory_emotions) emotion_values)
             | _ \<Rightarrow> True)
      in if \<not> emotion_ok then Inr False
         else if d_from \<noteq> None \<or> d_to \<noteq> None then
           (case fromisoformat e (or_empty (md_created_at md)) of
              None \<Rightarrow> Inl ValueError
            | Some created_at \<Rightarrow>
                if (case d_from of Some f \<Rightarrow> created_at < f | None \<Rightarrow> False) then Inr False
                else if (case d_to of Some t \<Rightarrow> created_at > t | None \<Rightarrow> False) then Inr False
                else Inr True)
         else Inr True)"

text \<open>List indexing that raises \<open>IndexError\<close>.\<close>

definition getitem :: "'a list \<Rightarrow> nat \<Rightarrow> pyexn + 'a" where
  "getitem xs i = (if i < length xs then Inr (xs ! i) else Inl IndexError)"

text \<open>Sequencing of steps that may raise: the first exception ends the body.\<close>

definition and_then :: "pyexn + 'a \<Rightarrow> ('a \<Rightarrow> pyexn + 'b) \<Rightarrow> pyexn + 'b" where
  "and_then r f = (case r of Inl x \<Rightarrow> Inl x | Inr v \<Rightarrow> f v)"

text \<open>The conversion loop of \<open>search_memories\<close> over \<open>results["ids"][0]\<close>, from index
  \<open>i\<close> on.\<close>

fun search_loop ::
    "env \<Rightarrow> SearchRequest \<Rightarrow> query_results \<Rightarrow> nat \<Rightarrow> uuid list \<Rightarrow> pyexn + search_result list" where
  "search_loop e request results i [] = Inr []"
| "search_loop e request results i (candidate_id # rest) =
     and_then (getitem (metadatas results) 0) (\<lambda>ms.
     and_then (getitem ms i) (\<lambda>md.
     and_then (getitem (distances results) 0) (\<lambda>ds.
     and_then (getitem ds i) (\<lambda>distance.
     and_then (passes_filters e (emotion_filter request) (date_from request) (date_to request) md) (\<lambda>keep.
     and_then (search_loop e request results (Suc i) rest) (\<lambda>found.
       Inr ((if keep then
               [\<lparr>r_id = candidate_id, r_score = 1 - distance, r_metadata = md,
                 r_summary = or_empty (md_summary md),
                 r_emotions = py_split comma (or_empty (md_emotions md))\<rparr>]
             else []) @ found)))))))"

text \<open>\<open>where_filter if where_filter else None\<close>: the user scope, when it is a non-empty
  string.\<close>

definition where_user :: "pystr option \<Rightarrow> pystr option" where
  "where_user u = or_None u"

text \<open>\<open>ChromaMemoryStore.search_memories\<close>: any exception of the body is answered with
  the empty list.\<close>

definition ChromaMemoryStore_search_memories ::
    "env \<Rightarrow> rat list \<Rightarrow> SearchRequest \<Rightarrow> world \<Rightarrow> search_result list \<times> world" where
  "ChromaMemoryStore_search_memories e query_embedding request w =
     (case ChromaDBClient_search_memories e query_embedding (top_k request)
             (where_user (q_user_id request)) w of
        (results, w1) \<Rightarrow>
          (case ids results of
             (candidate_id # rest) # others \<Rightarrow>
               (case search_loop e request results 0 (candidate_id # rest) of
                  Inl x \<Rightarrow> ([], w1)
                | Inr search_results \<Rightarrow> (search_results, w1))
           | _ \<Rightarrow> ([], w1)))"

text \<open>\<open>d[key]\<close> on an optional field: \<open>KeyError\<close> when the key is absent.\<close>

definition getkey :: "'a option \<Rightarrow> pyexn + 'a" where
  "getkey x = (case x of None \<Rightarrow> Inl KeyError | Some v \<Rightarrow> Inr v)"

text \<open>\<open>Emotion.from_japanese\<close>.\<close>

definition from_japanese :: "pystr \<Rightarrow> pyexn + Emotion" where
  "from_japanese v = (case find (\<lambda>emotion. emotion_value emotion = v) all_emotions of
                        Some emotion \<Rightarrow> Inr emotion | None \<Rightarrow> Inl ValueError)"

text \<open>A list comprehension whose element expression may raise: the first exception ends
  it.\<close>

fun map_raise :: "('a \<Rightarrow> pyexn + 'b) \<Rightarrow> 'a list \<Rightarrow> pyexn + 'b list" where
  "map_raise f [] = Inr []"
| "map_raise f (x # xs) =
     and_then (f x) (\<lambda>y. and_then (map_raise f xs) (\<lambda>ys. Inr (y # ys)))"

text \<open>The \<open>Memory(...)\<close> that \<open>get_memories_by_filter\<close> builds from a candidate.\<close>

definition memory_of_metadata :: "env \<Rightarrow> uuid \<Rightarrow> metadata \<Rightarrow> pyexn + Memory" where
  "memory_of_metadata e candidate_id md =
     and_then (getkey (md_summary md)) (\<lambda>summary_text.
     and_then (getkey (md_emotions md)) (\<lambda>emotions_text.
     and_then (map_raise (\<lambda>t. from_japanese (strip t))
                 (filter (\<lambda>t. strip t \<noteq> []) (py_split comma emotions_text))) (\<lambda>emotion_list.
     and_then (getkey (md_original_user md)) (\<lambda>original_user.
     and_then (getkey (md_original_ai md)) (\<lambda>original_ai.
     and_then (getkey (md_created_at md)) (\<lambda>created_text.
     and_then (case fromisoformat e created_text of None \<Rightarrow> Inl ValueError | Some t \<Rightarrow> Inr t) (\<lambda>created_at.
       Inr \<lparr>m_id = candidate_id, m_summary = summary_text, m_emotions = emotion_list,
            m_original_user = original_user, m_original_ai = original_ai,
            m_user_id = or_None (md_user_id md), m_session_id = or_None (md_session_id md),
            m_app_name = or_None (md_app_name md), m_created_at = created_at,
            m_embedding = None\<rparr>)))))))"

fun filter_loop ::
    "env \<Rightarrow> Emotion list option \<Rightarrow> datetime option \<Rightarrow> datetime option \<Rightarrow> query_results
      \<Rightarrow> nat \<Rightarrow> uuid list \<Rightarrow> pyexn + Memory list" where
  "filter_loop e emotions_opt d_from d_to results i [] = Inr []"
| "filter_loop e emotions_opt d_from d_to results i (candidate_id # rest) =
     and_then (getitem (metadatas results) 0) (\<lambda>ms.
     and_then (getitem ms i) (\<lambda>md.
     and_then (passes_filters e emotions_opt d_from d_to md) (\<lambda>keep.
     and_then (if keep then and_then (memory_of_metadata e candidate_id md) (\<lambda>memory. Inr [memory])
               else Inr []) (\<lambda>this.
     and_then (filter_loop e emotions_opt d_from d_to results (Suc i) rest) (\<lambda>found.
       Inr (this @ found))))))"

text \<open>\<open>xs[a:b]\<close> for any two integers.\<close>

definition py_slice :: "'a list \<Rightarrow> int \<Rightarrow> int \<Rightarrow> 'a list" where
  "py_slice xs a b =
     (let n = int (length xs);
          norm = (\<lambda>i. if i < 0 then max 0 (n + i) else min n i)
      in take (nat (norm b - norm a)) (drop (nat (norm a)) xs))"

text \<open>\<open>ChromaMemoryStore.get_memories_by_filter\<close>: the listing path, a query with a dummy
  vector of 1536 zeros.\<close>

definition ChromaMemoryStore_get_memories_by_filter ::
    "env \<Rightarrow> pystr option \<Rightarrow> Emotion list option \<Rightarrow> datetime option \<Rightarrow> datetime option
      \<Rightarrow> int \<Rightarrow> int \<Rightarrow> world \<Rightarrow> Memory list \<times> world" where
  "ChromaMemoryStore_get_memories_by_filter e uid emotions_opt d_from d_to limit offset w =
     (case ChromaDBClient_search_memories e (replicate 1536 0) (min 1000 (limit * 10))
             (where_user uid) w of
        (results, w1) \<Rightarrow>
          (case (case ids results of
                   (candidate_id # rest) # others \<Rightarrow>
                     filter_loop e emotions_opt d_from d_to results 0 (candidate_id # rest)
                 | _ \<Rightarrow> Inr []) of
             Inl x \<Rightarrow> ([], w1)
           | Inr memories \<Rightarrow> (py_slice memories offset (offset + limit), w1)))"

section \<open>The memory service (services/memory_service.py)\<close>

definition save_failed :: "uuid \<Rightarrow> pyexn \<Rightarrow> SaveResponse" where
  "save_failed mid x =
     \<lparr>success = False, memory_id = Some mid, summary = None, emotions = None,
      error = Some (if is_LLMError x then LLM_processing_error x else Memory_save_error x)\<rparr>"

text \<open>\<open>MemoryService.save_memory\<close>. The identifier is drawn before the \<open>try\<close>; an
  \<open>LLMError\<close> raised anywhere in the body takes the first handler, any other exception
  the second.\<close>

definition MemoryService_save_memory :: "env \<Rightarrow> SaveRequest \<Rightarrow> world \<Rightarrow> SaveResponse \<times> world" where
  "MemoryService_save_memory e request w =
     (case uuid4 w of (mid, w0) \<Rightarrow>
       (case llm_client_process_memory e
               \<lparr>llm_user_message = user_message request, llm_ai_message = ai_message request,
                llm_context_window = context_window request,
                llm_session_id = session_id request, llm_user_id = user_id request\<rparr> w0 of
          (Inl x, w1) \<Rightarrow> (save_failed mid x, w1)
        | (Inr llm_response, w1) \<Rightarrow>
           (case embedding_client_get_embedding e
                   (llm_summary llm_response @ [32] @ user_message request @ [32] @ ai_message request) w1 of
              (Inl x, w2) \<Rightarrow> (save_failed mid x, w2)
            | (Inr embedding, w2) \<Rightarrow>
               (case ChromaMemoryStore_save_memory e
                       \<lparr>m_id = mid, m_summary = llm_summary llm_response,
                        m_emotions = llm_emotions llm_response,
                        m_original_user = user_message request, m_original_ai = ai_message request,
                        m_user_id = user_id request, m_session_id = session_id request,
                        m_app_name = app_name request, m_created_at = utcnow e,
                        m_embedding = Some embedding\<rparr> w2 of
                  (False, w3) \<Rightarrow> (save_failed mid RuntimeError, w3)
                | (True, w3) \<Rightarrow>
                    (\<lparr>success = True, memory_id = Some mid, summary = Some (llm_summary llm_response),
                      emotions = Some (llm_emotions llm_response), error = None\<rparr>, w3)))))"

text \<open>\<open>MemoryService.search_memories\<close>. The store's method catches every exception of
  its own, so only the embedder can take the service to its handler.\<close>

definition MemoryService_search_memories :: "env \<Rightarrow> SearchRequest \<Rightarrow> world \<Rightarrow> SearchResponse \<times> world" where
  "MemoryService_search_memories e request w =
     (case embedding_client_get_embedding e (query request) w of
        (Inl x, w1) \<Rightarrow>
          (\<lparr>s_success = False, s_results = [], s_total_count = 0, s_error = Some (Search_error x)\<rparr>, w1)
      | (Inr query_embedding, w1) \<Rightarrow>
          (case ChromaMemoryStore_search_memories e query_embedding request w1 of
             (search_results, w2) \<Rightarrow>
               (\<lparr>s_success = True, s_results = search_results,
                 s_total_count = length search_results, s_error = None\<rparr>, w2)))"

section \<open>The endpoints (api/endpoints)\<close>

text \<open>
  The \<open>detail\<close> of an \<open>HTTPException\<close>, by the message the code formats. The memory
  service is injected into every endpoint, so it is a parameter: a function of the request
  and the world that returns a response or raises.
\<close>

datatype http_detail =
    User_message_empty | Ai_message_empty | User_message_too_long | Ai_message_too_long
  | Save_failed "error_text option"
  | Query_empty | Top_k_not_1_to_100 | Query_too_long
  | Date_from_format | Date_to_format
  | Search_failed "error_text option"
  | Server_error pyexn
  | Batch_empty | Batch_too_large
  | Request_user_message_empty nat | Request_ai_message_empty nat
  | Top_k_not_1_to_20 | Batch_query_empty nat | Batch_query_too_long nat
  | Request_validation

datatype HTTPException = HTTPException nat http_detail

text \<open>\<open>save_memory\<close> of save.py.\<close>

definition save_memory ::
    "(SaveRequest \<Rightarrow> 'w \<Rightarrow> (pyexn + SaveResponse) \<times> 'w) \<Rightarrow> SaveRequest \<Rightarrow> 'w
      \<Rightarrow> (HTTPException + SaveResponse) \<times> 'w" where
  "save_memory memory_service_save_memory request w =
     (if strip (user_message request) = [] then (Inl (HTTPException 400 User_message_empty), w)
      else if strip (ai_message request) = [] then (Inl (HTTPException 400 Ai_message_empty), w)
      else if length (user_message request) > 10000 then
        (Inl (HTTPException 400 User_message_too_long), w)
      else if length (ai_message request) > 10000 then
        (Inl (HTTPException 400 Ai_message_too_long), w)
      else
        (case memory_service_save_memory request w of
           (Inl x, w1) \<Rightarrow> (Inl (HTTPException 500 (Server_error x)), w1)
         | (Inr response, w1) \<Rightarrow>
             if success response then (Inr response, w1)
             else (Inl (HTTPException 500 (Save_failed (error response))), w1)))"

text \<open>The format check of \<open>search_memories\<close> on one date field. \<open>check_iso\<close> is the
  outcome of \<open>datetime.fromisoformat\<close> on the field's value: \<open>None\<close> when it returns,
  the exception otherwise. Only a \<open>ValueError\<close> is caught by the inner handler; any
  other exception reaches the outer one.\<close>

definition date_check ::
    "(datetime \<Rightarrow> pyexn option) \<Rightarrow> datetime option \<Rightarrow> http_detail \<Rightarrow> HTTPException option" where
  "date_check check_iso field detail =
     (case field of
        None \<Rightarrow> None
      | Some d \<Rightarrow>
          (case check_iso d of
             None \<Rightarrow> None
           | Some x \<Rightarrow> if x = ValueError then Some (HTTPException 400 detail)
                       else Some (HTTPException 500 (Server_error x))))"

text \<open>\<open>search_memories\<close> of search.py.\<close>

definition search_memories ::
    "(SearchRequest \<Rightarrow> 'w \<Rightarrow> (pyexn + SearchResponse) \<times> 'w) \<Rightarrow> (datetime \<Rightarrow> pyexn option)
      \<Rightarrow> SearchRequest \<Rightarrow> 'w \<Rightarrow> (HTTPException + SearchResponse) \<times> 'w" where
  "search_memories memory_service_search_memories check_iso request w =
     (if strip (query request) = [] then (Inl (HTTPException 400 Query_empty), w)
      else if top_k request \<le> 0 \<or> top_k request > 100 then
        (Inl (HTTPException 400 Top_k_not_1_to_100), w)
      else if length (query request) > 1000 then (Inl (HTTPException 400 Query_too_long), w)
      else
        (case date_check check_iso (date_from request) Date_from_format of
           Some h \<Rightarrow> (Inl h, w)
         | None \<Rightarrow>
            (case date_check check_iso (date_to request) Date_to_format of
               Some h \<Rightarrow> (Inl h, w)
             | None \<Rightarrow>
                (case memory_service_search_memories request w of
                   (Inl x, w1) \<Rightarrow> (Inl (HTTPException 500 (Server_error x)), w1)
                 | (Inr response, w1) \<Rightarrow>
                     if s_success response then (Inr response, w1)
                     else (Inl (HTTPException 500 (Search_failed (s_error response))), w1)))))"

text \<open>
  The body of a search request before the framework validates it against the schema
  \<open>SearchRequest\<close> of api/schemas/memory.py: \<open>top_k\<close> may be absent (default 5) and is
  declared \<open>Field(5, ge=1, le=20)\<close>. A body that violates the schema is answered with
  status 422 and the endpoint function is not entered.
\<close>

record SearchRequest_body =
  body_query :: pystr
  body_top_k :: "int option"
  body_emotion_filter :: "Emotion list option"
  body_user_id :: "pystr option"
  body_date_from :: "datetime option"
  body_date_to :: "datetime option"

definition SearchRequest_validate :: "SearchRequest_body \<Rightarrow> HTTPException + SearchRequest" where
  "SearchRequest_validate body =
     (let k = (case body_top_k body of None \<Rightarrow> 5 | Some k \<Rightarrow> k)
      in if 1 \<le> k \<and> k \<le> 20 then
           Inr \<lparr>query = body_query body, top_k = k, emotion_filter = body_emotion_filter body,
                q_user_id = body_user_id body, date_from = body_date_from body,
                date_to = body_date_to body\<rparr>
         else Inl (HTTPException 422 Request_validation))"

text \<open>The route \<open>POST /search\<close>: schema validation, then the endpoint function.\<close>

definition post_search ::
    "(SearchRequest \<Rightarrow> 'w \<Rightarrow> (pyexn + SearchResponse) \<times> 'w) \<Rightarrow> (datetime \<Rightarrow> pyexn option)
      \<Rightarrow> SearchRequest_body \<Rightarrow> 'w \<Rightarrow> (HTTPException + SearchResponse) \<times> 'w" where
  "post_search memory_service_search_memories check_iso body w =
     (case SearchRequest_validate body of
        Inl h \<Rightarrow> (Inl h, w)
      | Inr request \<Rightarrow> search_memories memory_service_search_memories check_iso request w)"

text \<open>The injected service, for the endpoints: \<open>MemoryService\<close>'s two methods return a
  response on every path.\<close>

definition service_save :: "env \<Rightarrow> SaveRequest \<Rightarrow> world \<Rightarrow> (pyexn + SaveResponse) \<times> world" where
  "service_save e request w =
     (case MemoryService_save_memory e request w of (response, w1) \<Rightarrow> (Inr response, w1))"

definition service_search :: "env \<Rightarrow> SearchRequest \<Rightarrow> world \<Rightarrow> (pyexn + SearchResponse) \<times> world" where
  "service_search e request w =
     (case MemoryService_search_memories e request w of (response, w1) \<Rightarrow> (Inr response, w1))"

section \<open>The batch endpoints (api/endpoints/batch.py)\<close>

text \<open>
  One entry of a batch report's \<open>results\<close>; a key the dictionary does not have reads as
  \<open>None\<close> (the empty list for \<open>emotions\<close>), as the report's \<open>r.get\<close> calls read it.
  Processing times, and the two rounded averages of the summary, are left out. The tasks
  of a batch are run here one after the other in input order; \<open>asyncio.gather\<close> returns
  their results in input order whatever the interleaving.
\<close>

record item_result =
  index :: nat
  i_success :: bool
  i_memory_id :: "uuid option"
  i_summary :: "pystr option"
  i_emotions :: "pystr list"
  i_error :: "error_text option"

record batch_save_report =
  b_success :: bool
  total_requested :: nat
  successful_saves :: nat
  failed_saves :: nat
  results :: "item_result list"
  total_emotions_detected :: nat

text \<open>The per-item checks before any task starts; requests are numbered from 1 in the
  message.\<close>

fun validate_requests :: "nat \<Rightarrow> SaveRequest list \<Rightarrow> HTTPException option" where
  "validate_requests i [] = None"
| "validate_requests i (request # rest) =
     (if strip (user_message request) = [] then
        Some (HTTPException 400 (Request_user_message_empty (i + 1)))
      else if strip (ai_message request) = [] then
        Some (HTTPException 400 (Request_ai_message_empty (i + 1)))
      else validate_requests (Suc i) rest)"

text \<open>\<open>save_single_memory\<close>: an exception of the service becomes a failed entry.\<close>

definition save_single_memory ::
    "(SaveRequest \<Rightarrow> 'w \<Rightarrow> (pyexn + SaveResponse) \<times> 'w) \<Rightarrow> nat \<Rightarrow> SaveRequest \<Rightarrow> 'w
      \<Rightarrow> item_result \<times> 'w" where
  "save_single_memory memory_service_save_memory i request w =
     (case memory_service_save_memory request w of
        (Inr response, w1) \<Rightarrow>
          (\<lparr>index = i, i_success = success response, i_memory_id = memory_id response,
            i_summary = (if success response then summary response else None),
            i_emotions = (case emotions response of
                            Some (x # xs) \<Rightarrow> map emotion_value (x # xs) | _ \<Rightarrow> []),
            i_error = (if \<not> success response then error response else None)\<rparr>, w1)
      | (Inl x, w1) \<Rightarrow>
          (\<lparr>index = i, i_success = False, i_memory_id = None, i_summary = None,
            i_emotions = [], i_error = Some (Unexpected_error x)\<rparr>, w1))"

text \<open>The tasks and \<open>asyncio.gather(*tasks, return_exceptions=True)\<close>.\<close>

fun gather_saves ::
    "(SaveRequest \<Rightarrow> 'w \<Rightarrow> (pyexn + SaveResponse) \<times> 'w) \<Rightarrow> nat \<Rightarrow> SaveRequest list \<Rightarrow> 'w
      \<Rightarrow> (pyexn + item_result) list \<times> 'w" where
  "gather_saves svc i [] w = ([], w)"
| "gather_saves svc i (request # rest) w =
     (case save_single_memory svc i request w of
        (r, w1) \<Rightarrow> (case gather_saves svc (Suc i) rest w1 of (rs, w2) \<Rightarrow> (Inr r # rs, w2)))"

text \<open>The aggregation loop over the gathered results, on the triple
  \<open>(successful_saves, failed_saves, processed_results)\<close>.\<close>

fun tally_saves ::
    "(pyexn + item_result) list \<Rightarrow> nat \<times> nat \<times> item_result list \<Rightarrow> nat \<times> nat \<times> item_result list" where
  "tally_saves [] acc = acc"
| "tally_saves (Inl x # rest) (ok, ko, processed) =
     tally_saves rest
       (ok, ko + 1,
        processed @ [\<lparr>index = length processed, i_success = False, i_memory_id = None,
                       i_summary = None, i_emotions = [],
                       i_error = Some (Processing_exception x)\<rparr>])"
| "tally_saves (Inr r # rest) (ok, ko, processed) =
     tally_saves rest
       (if i_success r then (ok + 1, ko, processed @ [r]) else (ok, ko + 1, processed @ [r]))"

text \<open>\<open>batch_save_memories\<close>.\<close>

definition batch_save_memories ::
    "(SaveRequest \<Rightarrow> 'w \<Rightarrow> (pyexn + SaveResponse) \<times> 'w) \<Rightarrow> SaveRequest list \<Rightarrow> 'w
      \<Rightarrow> (HTTPException + batch_save_report) \<times> 'w" where
  "batch_save_memories memory_service_save_memory requests w =
     (if requests = [] then (Inl (HTTPException 400 Batch_empty), w)
      else if length requests > 100 then (Inl (HTTPException 400 Batch_too_large), w)
      else
        (case validate_requests 0 requests of
           Some h \<Rightarrow> (Inl h, w)
         | None \<Rightarrow>
            (case gather_saves memory_service_save_memory 0 requests w of
               (gathered, w1) \<Rightarrow>
                 (case tally_saves gathered (0, 0, []) of
                    (ok, ko, processed) \<Rightarrow>
                      (Inr \<lparr>b_success = (ko = 0),
                            total_requested = length requests,
                            successful_saves = ok,
                            failed_saves = ko,
                            results = processed,
                            total_emotions_detected =
                              sum_list (map (\<lambda>r. length (i_emotions r)) (filter i_success processed))\<rparr>,
                       w1)))))"



text \<open>The batch search: its report entries, the checks before any task starts and the
  endpoint.\<close>

record query_result =
  q_index :: nat
  q_query :: pystr
  q_success :: bool
  q_results :: "search_result list"
  q_total_count :: nat
  q_error :: "error_text option"

record batch_search_report =
  bs_success :: bool
  total_queries :: nat
  successful_searches :: nat
  failed_searches :: nat
  bs_results :: "query_result list"

fun validate_queries :: "nat \<Rightarrow> pystr list \<Rightarrow> HTTPException option" where
  "validate_queries i [] = None"
| "validate_queries i (q # rest) =
     (if strip q = [] then Some (HTTPException 400 (Batch_query_empty (i + 1)))
      else if length q > 1000 then Some (HTTPException 400 (Batch_query_too_long (i + 1)))
      else validate_queries (Suc i) rest)"

definition batch_search_preflight :: "pystr list \<Rightarrow> int \<Rightarrow> HTTPException option" where
  "batch_search_preflight queries k =
     (if queries = [] then Some (HTTPException 400 Batch_empty)
      else if length queries > 50 then Some (HTTPException 400 Batch_too_large)
      else if k \<le> 0 \<or> k > 20 then Some (HTTPException 400 Top_k_not_1_to_20)
      else validate_queries 0 queries)"

definition search_single_query ::
    "(SearchRequest \<Rightarrow> 'w \<Rightarrow> (pyexn + SearchResponse) \<times> 'w) \<Rightarrow> int \<Rightarrow> pystr option \<Rightarrow> nat \<Rightarrow> pystr
      \<Rightarrow> 'w \<Rightarrow> query_result \<times> 'w" where
  "search_single_query memory_service_search_memories k uid i q w =
     (let failed = (\<lambda>x. \<lparr>q_index = i, q_query = q, q_success = False, q_results = [],
                          q_total_count = 0, q_error = Some (Unexpected_error x)\<rparr>)
      in case SearchRequest_validate
                \<lparr>body_query = q, body_top_k = Some k, body_emotion_filter = None,
                 body_user_id = uid, body_date_from = None, body_date_to = None\<rparr> of
           Inl h \<Rightarrow> (failed ValueError, w)
         | Inr search_request \<Rightarrow>
            (case memory_service_search_memories search_request w of
               (Inr response, w1) \<Rightarrow>
                 (\<lparr>q_index = i, q_query = q, q_success = s_success response,
                   q_results = (if s_success response then s_results response else []),
                   q_total_count = (if s_success response then s_total_count response else 0),
                   q_error = (if \<not> s_success response then s_error response else None)\<rparr>, w1)
             | (Inl x, w1) \<Rightarrow> (failed x, w1)))"

fun gather_searches ::
    "(SearchRequest \<Rightarrow> 'w \<Rightarrow> (pyexn + SearchResponse) \<times> 'w) \<Rightarrow> int \<Rightarrow> pystr option \<Rightarrow> nat
      \<Rightarrow> pystr list \<Rightarrow> 'w \<Rightarrow> (pyexn + query_result) list \<times> 'w" where
  "gather_searches svc k uid i [] w = ([], w)"
| "gather_searches svc k uid i (q # rest) w =
     (case search_single_query svc k uid i q w of
        (r, w1) \<Rightarrow> (case gather_searches svc k uid (Suc i) rest w1 of (rs, w2) \<Rightarrow> (Inr r # rs, w2)))"

fun tally_searches ::
    "pystr list \<Rightarrow> (pyexn + query_result) list \<Rightarrow> nat \<times> nat \<times> query_result list
      \<Rightarrow> nat \<times> nat \<times> query_result list" where
  "tally_searches queries [] acc = acc"
| "tally_searches queries (Inl x # rest) (ok, ko, processed) =
     tally_searches queries rest
       (ok, ko + 1,
        processed @ [\<lparr>q_index = length processed,
                       q_query = (if length processed < length queries
                                  then queries ! length processed
                                  else [117, 110, 107, 110, 111, 119, 110]),
                       q_success = False, q_results = [], q_total_count = 0,
                       q_error = Some (Processing_exception x)\<rparr>])"
| "tally_searches queries (Inr r # rest) (ok, ko, processed) =
     tally_searches queries rest
       (if q_success r then (ok + 1, ko, processed @ [r]) else (ok, ko + 1, processed @ [r]))"

definition batch_search_memories ::
    "(SearchRequest \<Rightarrow> 'w \<Rightarrow> (pyexn + SearchResponse) \<times> 'w) \<Rightarrow> pystr list \<Rightarrow> int \<Rightarrow> pystr option
      \<Rightarrow> 'w \<Rightarrow> (HTTPException + batch_search_report) \<times> 'w" where
  "batch_search_memories memory_service_search_memories queries k uid w =
     (case batch_search_preflight queries k of
        Some h \<Rightarrow> (Inl h, w)
      | None \<Rightarrow>
         (case gather_searches memory_service_search_memories k uid 0 queries w of
            (gathered, w1) \<Rightarrow>
              (case tally_searches queries gathered (0, 0, []) of
                 (ok, ko, processed) \<Rightarrow>
                   (Inr \<lparr>bs_success = (ko = 0), total_queries = length queries,
                         successful_searches = ok, failed_searches = ko,
                         bs_results = processed\<rparr>, w1))))"

section \<open>The emotion filter in the spec's words\<close>

text \<open>
  The emotion set of a stored record is what its metadata string splits into. The spec's
  predicate: an absent or empty filter is no constraint; otherwise a record matches when
  its emotion set and the filter set intersect.
\<close>

definition record_tags :: "metadata \<Rightarrow> pystr set" where
  "record_tags md = set (py_split comma (or_empty (md_emotions md)))"

definition spec_emotion_match :: "Emotion list option \<Rightarrow> metadata \<Rightarrow> bool" where
  "spec_emotion_match flt md =
     (case flt of
        None \<Rightarrow> True
      | Some fs \<Rightarrow> fs = [] \<or> emotion_value ` set fs \<inter> record_tags md \<noteq> {})"

text \<open>
  The date range in the same style: no range is no constraint; otherwise the record's
  creation instant has to be readable and lie between the two ends that are given, both
  included. \<open>dates_readable\<close> says that the conversion loop cannot fail on the
  candidates' creation instants: there is no range, or every instant parses.
\<close>

definition spec_date_match :: "env \<Rightarrow> datetime option \<Rightarrow> datetime option \<Rightarrow> metadata \<Rightarrow> bool" where
  "spec_date_match e d_from d_to md =
     (d_from = None \<and> d_to = None \<or>
      (case fromisoformat e (or_empty (md_created_at md)) of
         None \<Rightarrow> False
       | Some created_at \<Rightarrow>
           (case d_from of None \<Rightarrow> True | Some f \<Rightarrow> f \<le> created_at)
         \<and> (case d_to of None \<Rightarrow> True | Some t \<Rightarrow> created_at \<le> t)))"

definition dates_readable :: "env \<Rightarrow> SearchRequest \<Rightarrow> metadata list \<Rightarrow> bool" where
  "dates_readable e request mds =
     (date_from request = None \<and> date_to request = None \<or>
      list_all (\<lambda>md. fromisoformat e (or_empty (md_created_at md)) \<noteq> None) mds)"

section \<open>Concrete inputs\<close>

text \<open>A save request with the two messages given and no optional field.\<close>

definition plain_request :: "pystr \<Rightarrow> pystr \<Rightarrow> SaveRequest" where
  "plain_request u a =
     \<lparr>user_message = u, ai_message = a, user_id = None, session_id = None, app_name = None,
      context_window = None\<rparr>"



text \<open>Two limiter states with the same configuration: the limits of every endpoint are
  the same in both.\<close>

definition same_config :: "RateLimiter \<Rightarrow> RateLimiter \<Rightarrow> bool" where
  "same_config s s' = (enabled s' = enabled s \<and> endpoint_limits s' = endpoint_limits s
     \<and> default_rpm s' = default_rpm s \<and> default_rph s' = default_rph s
     \<and> burst_limit s' = burst_limit s)"

text \<open>Two requests from one address with no authenticated key, and a limiter whose burst
  counter for that address stands at 2 with the last request at 1/10.\<close>

definition debug_request :: Request where
  "debug_request = \<lparr>path = ''/debug/backup'', auth_rate_limit_key = None, client_host = Some ''10.0.0.1''\<rparr>"

definition save_request :: Request where
  "save_request = \<lparr>path = ''/save'', auth_rate_limit_key = None, client_host = Some ''10.0.0.1''\<rparr>"

definition saturated_limiter :: RateLimiter where
  "saturated_limiter = (RateLimiter_init 0)
     \<lparr>request_counts := [''ip:10.0.0.1'' \<mapsto> [0, 1 / 10]],
      burst_counts := [''ip:10.0.0.1'' \<mapsto> 2]\<rparr>"

text \<open>An empty world, and collaborators that all answer: the summarizer with a one-letter
  summary and the tag JOY, the embedder with a one-dimensional vector, the engine by
  taking every record and finding no candidate.\<close>

definition world0 :: world where
  "world0 = \<lparr>calls = [], stored = [], next_uuid = 0\<rparr>"

definition quiet_env :: env where
  "quiet_env =
     \<lparr>process_memory = (\<lambda>r. Inr \<lparr>llm_summary = [115], llm_emotions = [JOY]\<rparr>),
      get_embedding = (\<lambda>t. Inr [1]),
      collection_add = (\<lambda>i. None),
      collection_query = (\<lambda>q k f. Inr \<lparr>ids = [[]], metadatas = [[]], distances = [[]]\<rparr>),
      fromisoformat = (\<lambda>t. None),
      isoformat = (\<lambda>d. []),
      utcnow = 0\<rparr>"

text \<open>The metadata of a record whose emotion string is given, and the answer of the engine
  with three candidates whose emotion sets are {JOY, HAPPINESS}, {SADNESS} and {JOY}.\<close>

definition tagged :: "Emotion list \<Rightarrow> metadata" where
  "tagged es =
     \<lparr>md_summary = Some [115], md_emotions = Some (py_join comma (map emotion_value es)),
      md_user_id = Some [], md_session_id = Some [], md_app_name = Some [],
      md_created_at = Some [], md_original_user = Some [117], md_original_ai = Some [97]\<rparr>"

definition three_candidates :: query_results where
  "three_candidates =
     \<lparr>ids = [[1, 2, 3]],
      metadatas = [[tagged [JOY, HAPPINESS], tagged [SADNESS], tagged [JOY]]],
      distances = [[1 / 10, 1 / 5, 3 / 2]]\<rparr>"

definition search_for :: "int \<Rightarrow> Emotion list option \<Rightarrow> SearchRequest" where
  "search_for k flt =
     \<lparr>query = [113], top_k = k, emotion_filter = flt, q_user_id = None,
      date_from = None, date_to = None\<rparr>"

text \<open>A save request whose user message is 10,001 letters long, and a search body that
  asks for 50 results.\<close>

definition oversized_request :: SaveRequest where
  "oversized_request = plain_request (replicate 10001 120) [111, 107]"

definition body_top_k_50 :: SearchRequest_body where
  "body_top_k_50 =
     \<lparr>body_query = [113], body_top_k = Some 50, body_emotion_filter = None,
      body_user_id = None, body_date_from = None, body_date_to = None\<rparr>"

section \<open>Properties of the emotion extraction\<close>

lemma set_all_emotions: "set all_emotions = UNIV"
proof -
  have "e \<in> set all_emotions" for e
    by (cases e) (simp_all add: all_emotions_def)
  then show ?thesis by auto
qed

lemma detected_set:
  "set (filter (\<lambda>emotion. py_in (emotion_value emotion) t) all_emotions)
     = {e. py_in (emotion_value e) t}"
  by (simp add: set_all_emotions)

lemma six_tags_detected:
  "filter (\<lambda>emotion. py_in (emotion_value emotion) six_tags) all_emotions
     = [JOY, HAPPINESS, EXCITEMENT, LOVE, GRATITUDE, HOPE]"
  by (simp add: six_tags_def all_emotions_def)

text \<open>
  C6 (as the code has it). For every iteration order of the set, one extraction returns
  pairwise distinct tags, at most five of them, each of them detected in the text; when at
  most five distinct tags are detected, all of them are returned. Which five survive the
  truncation, and in which order, is decided by the set's iteration order.
\<close>

theorem extract_emotions_capped:
  assumes "set_iteration list_set"
  shows "distinct (BaseLLM_extract_emotions list_set t)
       \<and> length (BaseLLM_extract_emotions list_set t) \<le> 5
       \<and> set (BaseLLM_extract_emotions list_set t) \<subseteq> {e. py_in (emotion_value e) t}
       \<and> (card {e. py_in (emotion_value e) t} \<le> 5 \<longrightarrow>
            set (BaseLLM_extract_emotions list_set t) = {e. py_in (emotion_value e) t})"
proof -
  define D where "D = filter (\<lambda>emotion. py_in (emotion_value emotion) t) all_emotions"
  have r: "BaseLLM_extract_emotions list_set t = take 5 (list_set D)"
    by (simp add: BaseLLM_extract_emotions_def D_def)
  have d: "distinct (list_set D)" and s: "set (list_set D) = set D"
    using assms by (simp_all add: set_iteration_def)
  have sD: "set D = {e. py_in (emotion_value e) t}"
    unfolding D_def by (rule detected_set)
  have 1: "distinct (take 5 (list_set D))" using d by simp
  have 2: "length (take 5 (list_set D)) \<le> 5" by simp
  have 3: "set (take 5 (list_set D)) \<subseteq> {e. py_in (emotion_value e) t}"
    using set_take_subset [of 5 "list_set D"] s sD by simp
  have 4: "set (take 5 (list_set D)) = {e. py_in (emotion_value e) t}"
    if "card {e. py_in (emotion_value e) t} \<le> 5"
  proof -
    have "length (list_set D) = card (set (list_set D))"
      using d by (simp add: distinct_card)
    with that s sD have "length (list_set D) \<le> 5" by simp
    then show ?thesis using s sD by simp
  qed
  show ?thesis unfolding r using 1 2 3 4 by blast
qed

theorem extract_emotions_capped_witness:
  "set_iteration (remdups :: Emotion list \<Rightarrow> Emotion list)
   \<and> distinct (BaseLLM_extract_emotions remdups six_tags)
   \<and> length (BaseLLM_extract_emotions remdups six_tags) \<le> 5
   \<and> set (BaseLLM_extract_emotions remdups six_tags) \<subseteq> {e. py_in (emotion_value e) six_tags}"
  using extract_emotions_capped [of remdups six_tags] by (simp add: set_iteration_def)

text \<open>
  C6 as stated fails: the claim keeps the first five tags in first-appearance order, on
  every run. With six tags detected and a set that iterates in the reverse order, the code
  drops the first tag and keeps the sixth; and two admissible iteration orders (two
  processes with different hash salts) return different lists for the same text.
\<close>

theorem extract_emotions_order_counterexample:
  "set_iteration (rev \<circ> remdups :: Emotion list \<Rightarrow> Emotion list)
   \<and> set_iteration (remdups :: Emotion list \<Rightarrow> Emotion list)
   \<and> BaseLLM_extract_emotions (rev \<circ> remdups) six_tags
        = [HOPE, GRATITUDE, LOVE, EXCITEMENT, HAPPINESS]
   \<and> BaseLLM_extract_emotions (rev \<circ> remdups) six_tags
        \<noteq> take 5 (filter (\<lambda>e. py_in (emotion_value e) six_tags) all_emotions)
   \<and> BaseLLM_extract_emotions (rev \<circ> remdups) six_tags
        \<noteq> BaseLLM_extract_emotions remdups six_tags"
  by (simp add: set_iteration_def BaseLLM_extract_emotions_def six_tags_detected)

section \<open>Properties of the batch save\<close>







section \<open>Properties of the rate limiter\<close>

lemma dropWhile_keeps_last:
  assumes "ts \<noteq> []" and "\<not> P (last ts)"
  shows "dropWhile P ts \<noteq> [] \<and> last (dropWhile P ts) = last ts
         \<and> length (dropWhile P ts) \<le> length ts"
proof -
  have ne: "dropWhile P ts \<noteq> []"
    using assms by (auto simp: dropWhile_eq_Nil_conv)
  have "ts = takeWhile P ts @ dropWhile P ts" by simp
  then have "last ts = last (takeWhile P ts @ dropWhile P ts)" by simp
  also have "\<dots> = last (dropWhile P ts)" using ne by (rule last_appendR)
  finally show ?thesis using ne by (simp add: length_dropWhile_le)
qed

lemma get_endpoint_limits_cong:
  assumes "endpoint_limits s' = endpoint_limits s" and "default_rpm s' = default_rpm s"
      and "default_rph s' = default_rph s" and "burst_limit s' = burst_limit s"
  shows "get_endpoint_limits s' = get_endpoint_limits s"
  using assms by (simp add: get_endpoint_limits_def fun_eq_iff split: option.splits)

lemma cleanup_key:
  assumes "request_counts s key = Some ts" and "ts \<noteq> []" and "last ts = now"
  shows "\<exists>ts'. request_counts (cleanup_old_requests now s) key = Some ts' \<and> ts' \<noteq> []
           \<and> last ts' = now \<and> length ts' \<le> length ts
           \<and> burst_counts (cleanup_old_requests now s) key = burst_counts s key
           \<and> same_config s (cleanup_old_requests now s)"
proof (cases "now - last_cleanup s < cleanup_interval s")
  case True
  then show ?thesis using assms by (simp add: cleanup_old_requests_def same_config_def)
next
  case False
  have "\<not> (last ts < now - 3600)" using assms by simp
  with assms(2) have "dropWhile (\<lambda>t. t < now - 3600) ts \<noteq> []
      \<and> last (dropWhile (\<lambda>t. t < now - 3600) ts) = last ts
      \<and> length (dropWhile (\<lambda>t. t < now - 3600) ts) \<le> length ts"
    by (intro dropWhile_keeps_last)
  then show ?thesis using False assms
    by (auto simp: cleanup_old_requests_def same_config_def Let_def dropWhile_eq_Nil_conv)
qed

lemma record_request_key:
  assumes "get_default (request_counts s) key [] = ts" and "get_default (burst_counts s) key 0 = b"
  shows "\<exists>ts'. request_counts (record_request now now key s) key = Some ts' \<and> ts' \<noteq> []
           \<and> last ts' = now \<and> length ts' \<le> length ts + 1
           \<and> burst_counts (record_request now now key s) key = Some (b + 1)
           \<and> same_config s (record_request now now key s)"
proof -
  define s1 where "s1 = s\<lparr>request_counts := (request_counts s)(key \<mapsto> ts @ [now]),
                          burst_counts := (burst_counts s)(key \<mapsto> b + 1)\<rparr>"
  have r: "record_request now now key s = cleanup_old_requests now s1"
    using assms by (simp add: record_request_def s1_def)
  have "request_counts s1 key = Some (ts @ [now])" "ts @ [now] \<noteq> []" "last (ts @ [now]) = now"
    by (simp_all add: s1_def)
  from cleanup_key [OF this] obtain ts' where
    "request_counts (cleanup_old_requests now s1) key = Some ts'" "ts' \<noteq> []" "last ts' = now"
    "length ts' \<le> length (ts @ [now])"
    "burst_counts (cleanup_old_requests now s1) key = burst_counts s1 key"
    "same_config s1 (cleanup_old_requests now s1)" by blast
  moreover have "burst_counts s1 key = Some (b + 1)" "same_config s s1"
    by (simp_all add: s1_def same_config_def)
  ultimately show ?thesis unfolding r by (auto simp: same_config_def)
qed

lemma count_after_le: "count_after c ts \<le> int (length ts)"
  by (simp add: count_after_def)

lemma check_minute_hour_ok:
  assumes "int (length (get_default (request_counts s) key [])) < rpm L"
      and "int (length (get_default (request_counts s) key [])) < rph L"
  shows "\<exists>d. check_minute_hour now L b key s
           = ((True, d), s\<lparr>request_counts := (request_counts s)(key \<mapsto> get_default (request_counts s) key [])\<rparr>)"
proof -
  have "\<not> rpm L \<le> count_after (now - 60) (get_default (request_counts s) key [])"
    using assms(1) count_after_le [of "now - 60" "get_default (request_counts s) key []"] by linarith
  moreover have "\<not> rph L \<le> count_after (now - 3600) (get_default (request_counts s) key [])"
    using assms(2) count_after_le [of "now - 3600" "get_default (request_counts s) key []"] by linarith
  ultimately show ?thesis by (simp add: check_minute_hour_def Let_def)
qed


lemma same_config_limits: "same_config s s' \<Longrightarrow> get_endpoint_limits s' = get_endpoint_limits s"
  by (rule get_endpoint_limits_cong) (simp_all add: same_config_def)

lemma same_config_trans: "same_config s s1 \<Longrightarrow> same_config s1 s2 \<Longrightarrow> same_config s s2"
  by (simp add: same_config_def)

lemma check_key_reset:
  assumes "get_endpoint_limits s endpoint = L"
      and "burst L \<le> get_default (burst_counts s) key 0"
      and "request_counts s key = Some ts" and "ts \<noteq> []" and "1 \<le> now - last ts"
  shows "burst_counts (snd (check_rate_limit_key now key endpoint s)) key = Some 0"
proof -
  have g: "get_default (request_counts s) key [] = ts"
    using assms(3) by (simp add: get_default_def)
  have "check_rate_limit_key now key endpoint s
          = check_minute_hour now L (get_default (burst_counts s) key 0) key
              (s\<lparr>burst_counts := (burst_counts s)(key \<mapsto> 0)\<rparr>)"
    using assms g by (simp add: check_rate_limit_key_def Let_def)
  then show ?thesis
    by (simp add: check_minute_hour_def Let_def)
qed

lemma admit_below_cap:
  assumes "enabled s" and "path r \<notin> set [''/'', ''/health'', ''/docs'', ''/redoc'', ''/openapi.json'']"
      and "get_endpoint_limits s (path r) = L" and "key = get_rate_limit_key r"
      and "get_default (burst_counts s) key 0 = b" and "b < burst L"
      and "get_default (request_counts s) key [] = ts"
      and "int (length ts) < rpm L" and "int (length ts) < rph L"
  shows "\<exists>s' ts'. check_rate_limit now r s = (True, s') \<and> request_counts s' key = Some ts'
           \<and> ts' \<noteq> [] \<and> last ts' = now \<and> length ts' \<le> length ts + 1
           \<and> burst_counts s' key = Some (b + 1) \<and> same_config s s'"
proof -
  define s0 where "s0 = s\<lparr>request_counts := (request_counts s)(key \<mapsto> ts)\<rparr>"
  obtain d where "check_minute_hour now L b key s = ((True, d), s0)"
    using check_minute_hour_ok [of s key L now b] assms by (auto simp: s0_def)
  then have c: "check_rate_limit_key now key (path r) s = ((True, d), s0)"
    using assms by (simp add: check_rate_limit_key_def Let_def)
  have "get_default (request_counts s0) key [] = ts" "get_default (burst_counts s0) key 0 = b"
    using assms by (simp_all add: s0_def get_default_def)
  from record_request_key [OF this, of now] obtain ts' where
    r: "request_counts (record_request now now key s0) key = Some ts'" "ts' \<noteq> []"
       "last ts' = now" "length ts' \<le> length ts + 1"
       "burst_counts (record_request now now key s0) key = Some (b + 1)"
       "same_config s0 (record_request now now key s0)" by blast
  have "same_config s s0" by (simp add: s0_def same_config_def)
  then have sc: "same_config s (record_request now now key s0)"
    using r(6) by (rule same_config_trans)
  have "check_rate_limit now r s = (True, record_request now now key s0)"
    using assms(1,2,4) c by (simp add: check_rate_limit_def Let_def)
  with r sc show ?thesis by blast
qed

lemma admit_after_reset:
  assumes "enabled s" and "path r \<notin> set [''/'', ''/health'', ''/docs'', ''/redoc'', ''/openapi.json'']"
      and "get_endpoint_limits s (path r) = L" and "key = get_rate_limit_key r"
      and "burst L \<le> get_default (burst_counts s) key 0"
      and "request_counts s key = Some ts" and "ts \<noteq> []" and "1 \<le> now - last ts"
      and "int (length ts) < rpm L" and "int (length ts) < rph L"
  shows "\<exists>s' ts'. check_rate_limit now r s = (True, s') \<and> request_counts s' key = Some ts'
           \<and> ts' \<noteq> [] \<and> last ts' = now \<and> length ts' \<le> length ts + 1
           \<and> burst_counts s' key = Some 1 \<and> same_config s s'"
proof -
  define sr where "sr = s\<lparr>burst_counts := (burst_counts s)(key \<mapsto> 0)\<rparr>"
  define s0 where "s0 = sr\<lparr>request_counts := (request_counts sr)(key \<mapsto> ts)\<rparr>"
  have g: "get_default (request_counts s) key [] = ts"
    using assms(6) by (simp add: get_default_def)
  have gr: "get_default (request_counts sr) key [] = ts"
    using g by (simp add: sr_def)
  obtain d where "check_minute_hour now L (get_default (burst_counts s) key 0) key sr = ((True, d), s0)"
    using check_minute_hour_ok [of sr key L now "get_default (burst_counts s) key 0"] assms gr
    by (auto simp: s0_def)
  then have c: "check_rate_limit_key now key (path r) s = ((True, d), s0)"
    using assms g by (simp add: check_rate_limit_key_def Let_def sr_def)
  have "get_default (request_counts s0) key [] = ts" "get_default (burst_counts s0) key 0 = 0"
    by (simp_all add: s0_def sr_def get_default_def)
  from record_request_key [OF this, of now] obtain ts' where
    r: "request_counts (record_request now now key s0) key = Some ts'" "ts' \<noteq> []"
       "last ts' = now" "length ts' \<le> length ts + 1"
       "burst_counts (record_request now now key s0) key = Some (0 + 1)"
       "same_config s0 (record_request now now key s0)" by blast
  have "same_config s s0" by (simp add: s0_def sr_def same_config_def)
  then have sc: "same_config s (record_request now now key s0)"
    using r(6) by (rule same_config_trans)
  have "check_rate_limit now r s = (True, record_request now now key s0)"
    using assms(1,2,4) c by (simp add: check_rate_limit_def Let_def)
  with r sc show ?thesis by auto
qed

lemma deny_within_second:
  assumes "enabled s" and "path r \<notin> set [''/'', ''/health'', ''/docs'', ''/redoc'', ''/openapi.json'']"
      and "get_endpoint_limits s (path r) = L" and "key = get_rate_limit_key r"
      and "burst L \<le> get_default (burst_counts s) key 0"
      and "request_counts s key = Some ts" and "now - last ts < 1"
  shows "check_rate_limit now r s = (False, s)"
proof -
  have g: "get_default (request_counts s) key [] = ts"
    using assms(6) by (simp add: get_default_def)
  have "\<exists>d. check_rate_limit_key now key (path r) s = ((False, d), s)"
    using assms g by (simp add: check_rate_limit_key_def Let_def)
  then show ?thesis using assms(1,2,4) by (auto simp: check_rate_limit_def Let_def)
qed


text \<open>
  C3 (as the code has it). The burst counter of an identity is reset to 0 by the check when
  it has reached the endpoint's burst cap and at least one second has passed since the
  identity's most recent recorded request. With burst cap 2 and a fresh identity: two
  admits, a third request less than a second after the second is denied and changes
  nothing, and a request one second or more after the second finds the counter reset to 0
  by the check, is admitted, and leaves the counter at 1.
\<close>

theorem burst_counter_reset:
  assumes en: "enabled self"
      and pub: "path request \<notin> set [''/'', ''/health'', ''/docs'', ''/redoc'', ''/openapi.json'']"
      and L: "get_endpoint_limits self (path request) = limits"
      and key: "key = get_rate_limit_key request"
  shows "(burst limits \<le> get_default (burst_counts self) key 0 \<and> request_counts self key = Some ts
            \<and> ts \<noteq> [] \<and> 1 \<le> now - last ts
          \<longrightarrow> burst_counts (snd (check_rate_limit_key now key (path request) self)) key = Some 0)
       \<and> (burst limits = 2 \<and> 2 < rpm limits \<and> 2 < rph limits
            \<and> request_counts self key = None \<and> burst_counts self key = None
            \<and> t3 - t2 < 1 \<and> 1 \<le> t4 - t2
          \<longrightarrow> (\<exists>s1 s2 s4.
                 check_rate_limit t1 request self = (True, s1)
               \<and> check_rate_limit t2 request s1 = (True, s2)
               \<and> burst_counts s2 key = Some 2
               \<and> check_rate_limit t3 request s2 = (False, s2)
               \<and> burst_counts (snd (check_rate_limit_key t4 key (path request) s2)) key = Some 0
               \<and> check_rate_limit t4 request s2 = (True, s4)
               \<and> burst_counts s4 key = Some 1))"
proof (intro conjI impI)
  assume "burst limits \<le> get_default (burst_counts self) key 0 \<and> request_counts self key = Some ts
            \<and> ts \<noteq> [] \<and> 1 \<le> now - last ts"
  then show "burst_counts (snd (check_rate_limit_key now key (path request) self)) key = Some 0"
    using check_key_reset [OF L, of key ts now] by blast
next
  assume h: "burst limits = 2 \<and> 2 < rpm limits \<and> 2 < rph limits
            \<and> request_counts self key = None \<and> burst_counts self key = None
            \<and> t3 - t2 < 1 \<and> 1 \<le> t4 - t2"
  have g0: "get_default (burst_counts self) key 0 = 0" "get_default (request_counts self) key [] = []"
    using h by (simp_all add: get_default_def)
  from admit_below_cap [OF en pub L key g0(1) _ g0(2), of t1] h
  obtain s1 ts1 where 1: "check_rate_limit t1 request self = (True, s1)"
    "request_counts s1 key = Some ts1" "ts1 \<noteq> []" "last ts1 = t1" "length ts1 \<le> 1"
    "burst_counts s1 key = Some 1" "same_config self s1" by auto
  have en1: "enabled s1" using 1(7) en by (simp add: same_config_def)
  have L1: "get_endpoint_limits s1 (path request) = limits"
    using same_config_limits [OF 1(7)] L by simp
  have g1: "get_default (burst_counts s1) key 0 = 1" "get_default (request_counts s1) key [] = ts1"
    using 1 by (simp_all add: get_default_def)
  from admit_below_cap [OF en1 pub L1 key g1(1) _ g1(2), of t2] h 1(5)
  obtain s2 ts2 where 2: "check_rate_limit t2 request s1 = (True, s2)"
    "request_counts s2 key = Some ts2" "ts2 \<noteq> []" "last ts2 = t2" "length ts2 \<le> 2"
    "burst_counts s2 key = Some 2" "same_config s1 s2" by auto
  have en2: "enabled s2" using 2(7) en1 by (simp add: same_config_def)
  have L2: "get_endpoint_limits s2 (path request) = limits"
    using same_config_limits [OF 2(7)] L1 by simp
  have b2: "burst limits \<le> get_default (burst_counts s2) key 0"
    using 2(6) h by (simp add: get_default_def)
  have 3: "check_rate_limit t3 request s2 = (False, s2)"
    using deny_within_second [OF en2 pub L2 key b2 2(2), of t3] 2(4) h by simp
  have e4: "1 \<le> t4 - last ts2" using 2(4) h by simp
  have r4: "burst_counts (snd (check_rate_limit_key t4 key (path request) s2)) key = Some 0"
    using check_key_reset [OF L2 b2 2(2) 2(3) e4] .
  from admit_after_reset [OF en2 pub L2 key b2 2(2) 2(3) e4] h 2(5)
  obtain s4 where 4: "check_rate_limit t4 request s2 = (True, s4)" "burst_counts s4 key = Some 1"
    by auto
  show "\<exists>s1 s2 s4.
                 check_rate_limit t1 request self = (True, s1)
               \<and> check_rate_limit t2 request s1 = (True, s2)
               \<and> burst_counts s2 key = Some 2
               \<and> check_rate_limit t3 request s2 = (False, s2)
               \<and> burst_counts (snd (check_rate_limit_key t4 key (path request) s2)) key = Some 0
               \<and> check_rate_limit t4 request s2 = (True, s4)
               \<and> burst_counts s4 key = Some 1"
    using 1(1) 2(1) 2(6) 3 r4 4 by blast
qed


lemma debug_request_config:
  "enabled (RateLimiter_init 0)"
  "path debug_request \<notin> set [''/'', ''/health'', ''/docs'', ''/redoc'', ''/openapi.json'']"
  "get_endpoint_limits (RateLimiter_init 0) (path debug_request) = \<lparr>rpm = 10, rph = 50, burst = 2\<rparr>"
  "''ip:10.0.0.1'' = get_rate_limit_key debug_request"
  by (simp_all add: RateLimiter_init_def debug_request_def get_endpoint_limits_def
        load_endpoint_limits_def get_rate_limit_key_def)

lemma saturated_limiter_config:
  "enabled saturated_limiter"
  "get_endpoint_limits saturated_limiter (path debug_request) = \<lparr>rpm = 10, rph = 50, burst = 2\<rparr>"
  by (simp_all add: saturated_limiter_def RateLimiter_init_def debug_request_def
        get_endpoint_limits_def load_endpoint_limits_def)

theorem burst_counter_reset_witness:
  "enabled (RateLimiter_init 0)
   \<and> get_endpoint_limits (RateLimiter_init 0) (path debug_request) = \<lparr>rpm = 10, rph = 50, burst = 2\<rparr>
   \<and> (\<exists>s1 s2 s4.
         check_rate_limit 0 debug_request (RateLimiter_init 0) = (True, s1)
       \<and> check_rate_limit (1 / 10) debug_request s1 = (True, s2)
       \<and> burst_counts s2 ''ip:10.0.0.1'' = Some 2
       \<and> check_rate_limit (1 / 2) debug_request s2 = (False, s2)
       \<and> burst_counts (snd (check_rate_limit_key (3 / 2) ''ip:10.0.0.1'' (path debug_request) s2))
            ''ip:10.0.0.1'' = Some 0
       \<and> check_rate_limit (3 / 2) debug_request s2 = (True, s4)
       \<and> burst_counts s4 ''ip:10.0.0.1'' = Some 1)
   \<and> burst_counts (snd (check_rate_limit_key (3 / 2) ''ip:10.0.0.1'' (path debug_request) saturated_limiter))
        ''ip:10.0.0.1'' = Some 0"
proof -
  have fresh: "request_counts (RateLimiter_init 0) ''ip:10.0.0.1'' = None"
      "burst_counts (RateLimiter_init 0) ''ip:10.0.0.1'' = None"
    by (simp_all add: RateLimiter_init_def)
  have a: "\<exists>s1 s2 s4.
         check_rate_limit 0 debug_request (RateLimiter_init 0) = (True, s1)
       \<and> check_rate_limit (1 / 10) debug_request s1 = (True, s2)
       \<and> burst_counts s2 ''ip:10.0.0.1'' = Some 2
       \<and> check_rate_limit (1 / 2) debug_request s2 = (False, s2)
       \<and> burst_counts (snd (check_rate_limit_key (3 / 2) ''ip:10.0.0.1'' (path debug_request) s2))
            ''ip:10.0.0.1'' = Some 0
       \<and> check_rate_limit (3 / 2) debug_request s2 = (True, s4)
       \<and> burst_counts s4 ''ip:10.0.0.1'' = Some 1"
    using burst_counter_reset [OF debug_request_config, of "[]" 0 "1 / 2" "1 / 10" "3 / 2" 0] fresh
    by simp
  have sat: "request_counts saturated_limiter ''ip:10.0.0.1'' = Some [0, 1 / 10]"
      "get_default (burst_counts saturated_limiter) ''ip:10.0.0.1'' 0 = 2"
    by (simp_all add: saturated_limiter_def get_default_def)
  have b: "burst_counts (snd (check_rate_limit_key (3 / 2) ''ip:10.0.0.1'' (path debug_request) saturated_limiter))
        ''ip:10.0.0.1'' = Some 0"
    using burst_counter_reset [OF saturated_limiter_config(1) debug_request_config(2)
            saturated_limiter_config(2) debug_request_config(4), of "[0, 1 / 10]" "3 / 2"] sat
    by simp
  show ?thesis using debug_request_config(1,3) a b by blast
qed

text \<open>
  C3 as stated fails: the claim resets the counter whenever a second has passed. A counter
  below the cap is not reset: on \<open>/save\<close> (cap 5) a request ten seconds after the first
  finds the counter at 1, the check leaves it at 1 and the admission raises it to 2. So
  with cap 2, two requests ten seconds apart saturate the counter and a third request
  half a second after the second is denied.
\<close>

theorem burst_counter_not_reset_counterexample:
  "(let s1 = snd (check_rate_limit 0 save_request (RateLimiter_init 0))
    in get_endpoint_limits s1 (path save_request) = \<lparr>rpm = 30, rph = 500, burst = 5\<rparr>
     \<and> request_counts s1 ''ip:10.0.0.1'' = Some [0]
     \<and> burst_counts s1 ''ip:10.0.0.1'' = Some 1
     \<and> burst_counts (snd (check_rate_limit_key 10 ''ip:10.0.0.1'' (path save_request) s1))
          ''ip:10.0.0.1'' = Some 1
     \<and> burst_counts (snd (check_rate_limit 10 save_request s1)) ''ip:10.0.0.1'' = Some 2)
   \<and> (let s1 = snd (check_rate_limit 0 debug_request (RateLimiter_init 0));
           s2 = snd (check_rate_limit 10 debug_request s1)
       in fst (check_rate_limit 10 debug_request s1)
        \<and> burst_counts s2 ''ip:10.0.0.1'' = Some 2
        \<and> \<not> fst (check_rate_limit (21 / 2) debug_request s2))"
  by (simp add: Let_def check_rate_limit_def check_rate_limit_key_def check_minute_hour_def
        record_request_def cleanup_old_requests_def get_default_def count_after_def
        get_rate_limit_key_def get_endpoint_limits_def load_endpoint_limits_def
        RateLimiter_init_def save_request_def debug_request_def)

section \<open>Properties of the save path\<close>





section \<open>Properties of the search path\<close>

lemma py_split_no_sep: "sep \<notin> set w \<Longrightarrow> py_split sep w = [w]"
  by (induction w) auto

lemma py_split_append_sep:
  "sep \<notin> set w \<Longrightarrow> py_split sep (w @ sep # rest) = w # py_split sep rest"
  by (induction w) auto

lemma py_split_join:
  "ws \<noteq> [] \<Longrightarrow> \<forall>w\<in>set ws. sep \<notin> set w \<Longrightarrow> py_split sep (py_join sep ws) = ws"
proof (induction sep ws rule: py_join.induct)
  case (1 sep)
  then show ?case by simp
next
  case (2 sep w)
  then show ?case by (simp add: py_split_no_sep)
next
  case (3 sep w v ws)
  then show ?case by (simp add: py_split_append_sep)
qed

lemma emotion_value_no_comma: "comma \<notin> set (emotion_value e)"
  by (cases e) (simp_all add: comma_def)

lemma emotion_value_nonempty: "emotion_value e \<noteq> []"
  by (cases e) simp_all

lemma distinct_emotion_values: "distinct (map emotion_value all_emotions)"
  by (simp add: all_emotions_def)

lemma inj_emotion_value: "inj emotion_value"
proof -
  have "inj_on emotion_value (set all_emotions)"
    using distinct_emotion_values by (simp add: distinct_map)
  then show ?thesis by (simp add: set_all_emotions)
qed

lemma saved_record_tags:
  assumes "md_emotions md = Some (py_join comma (map emotion_value es))"
  shows "emotion_value ` set fs \<inter> record_tags md \<noteq> {} \<longleftrightarrow> set es \<inter> set fs \<noteq> {}"
proof (cases es)
  case Nil
  then have "record_tags md = {[]}" using assms by (simp add: record_tags_def or_empty_def)
  then show ?thesis using Nil emotion_value_nonempty by (auto dest: sym)
next
  case (Cons a as)
  then have "py_split comma (py_join comma (map emotion_value es)) = map emotion_value es"
    by (intro py_split_join) (auto simp: emotion_value_no_comma)
  then have "record_tags md = emotion_value ` set es"
    using assms by (simp add: record_tags_def or_empty_def)
  then show ?thesis using inj_emotion_value by (auto simp: inj_def)
qed

lemma emotion_check_spec:
  "(\<exists>x\<in>set fs. emotion_value x \<in> set (py_split comma (or_empty (md_emotions md))))
     \<longleftrightarrow> emotion_value ` set fs \<inter> record_tags md \<noteq> {}"
  by (auto simp: record_tags_def)

lemma date_check_spec:
  assumes "d_from = None \<and> d_to = None \<or> fromisoformat e (or_empty (md_created_at md)) \<noteq> None"
  shows "(if d_from \<noteq> None \<or> d_to \<noteq> None then
           (case fromisoformat e (or_empty (md_created_at md)) of
              None \<Rightarrow> Inl ValueError
            | Some created_at \<Rightarrow>
                if (case d_from of Some f \<Rightarrow> created_at < f | None \<Rightarrow> False) then Inr False
                else if (case d_to of Some t \<Rightarrow> created_at > t | None \<Rightarrow> False) then Inr False
                else Inr True)
         else Inr True) = Inr (spec_date_match e d_from d_to md)"
  using assms by (auto simp: spec_date_match_def split: option.splits)

lemma passes_filters_spec:
  assumes "d_from = None \<and> d_to = None \<or> fromisoformat e (or_empty (md_created_at md)) \<noteq> None"
  shows "passes_filters e flt d_from d_to md
           = Inr (spec_emotion_match flt md \<and> spec_date_match e d_from d_to md)"
proof -
  consider (none) "flt = None" | (empty) "flt = Some []" | (some) f fs where "flt = Some (f # fs)"
    by (cases flt; cases "the flt") auto
  then show ?thesis
  proof cases
    case none
    then show ?thesis
      using date_check_spec [OF assms]
      by (simp add: passes_filters_def spec_emotion_match_def)
  next
    case empty
    then show ?thesis
      using date_check_spec [OF assms]
      by (simp add: passes_filters_def spec_emotion_match_def)
  next
    case some
    have m: "list_ex (\<lambda>emotion. emotion \<in> set (py_split comma (or_empty (md_emotions md))))
               (map emotion_value (f # fs)) \<longleftrightarrow> spec_emotion_match (Some (f # fs)) md"
      by (auto simp: spec_emotion_match_def record_tags_def list_ex_iff)
    have "passes_filters e flt d_from d_to md
            = (if \<not> spec_emotion_match (Some (f # fs)) md then Inr False
               else if d_from \<noteq> None \<or> d_to \<noteq> None then
                 (case fromisoformat e (or_empty (md_created_at md)) of
                    None \<Rightarrow> Inl ValueError
                  | Some created_at \<Rightarrow>
                      if (case d_from of Some f \<Rightarrow> created_at < f | None \<Rightarrow> False) then Inr False
                      else if (case d_to of Some t \<Rightarrow> created_at > t | None \<Rightarrow> False) then Inr False
                      else Inr True)
               else Inr True)"
      unfolding passes_filters_def Let_def some option.case list.case m ..
    then show ?thesis
      using date_check_spec [OF assms] some by simp
  qed
qed

lemma search_loop_spec:
  assumes "metadatas res = mds # mrest" and "distances res = ds # drest"
      and "dates_readable e request mds"
      and "i + length cs \<le> length mds" and "i + length cs \<le> length ds"
  shows "search_loop e request res i cs
     = Inr (map (\<lambda>(c, md, d). \<lparr>r_id = c, r_score = 1 - d, r_metadata = md,
                                r_summary = or_empty (md_summary md),
                                r_emotions = py_split comma (or_empty (md_emotions md))\<rparr>)
             (filter (\<lambda>(c, md, d). spec_emotion_match (emotion_filter request) md
                        \<and> spec_date_match e (date_from request) (date_to request) md)
                (zip cs (zip (drop i mds) (drop i ds)))))"
  using assms(4,5)
proof (induction cs arbitrary: i)
  case Nil
  then show ?case by simp
next
  case (Cons c cs)
  have i: "i < length mds" "i < length ds" using Cons.prems by simp_all
  have d: "drop i mds = mds ! i # drop (Suc i) mds" "drop i ds = ds ! i # drop (Suc i) ds"
    using i by (simp_all add: Cons_nth_drop_Suc)
  have ih: "search_loop e request res (Suc i) cs
     = Inr (map (\<lambda>(c, md, d). \<lparr>r_id = c, r_score = 1 - d, r_metadata = md,
                                r_summary = or_empty (md_summary md),
                                r_emotions = py_split comma (or_empty (md_emotions md))\<rparr>)
             (filter (\<lambda>(c, md, d). spec_emotion_match (emotion_filter request) md
                        \<and> spec_date_match e (date_from request) (date_to request) md)
                (zip cs (zip (drop (Suc i) mds) (drop (Suc i) ds)))))"
    using Cons.prems by (intro Cons.IH) simp_all
  have "date_from request = None \<and> date_to request = None
          \<or> fromisoformat e (or_empty (md_created_at (mds ! i))) \<noteq> None"
    using assms(3) i by (auto simp: dates_readable_def list_all_length)
  note p = passes_filters_spec [OF this]
  show ?case
    using i assms(1,2)
    by (simp add: d ih getitem_def and_then_def p)
qed

lemma ids_of_kept:
  assumes "length mds = length cs" and "length ds = length cs"
  shows "map r_id (map (\<lambda>(c, md, d). \<lparr>r_id = c, r_score = 1 - d, r_metadata = md,
                                r_summary = or_empty (md_summary md),
                                r_emotions = py_split comma (or_empty (md_emotions md))\<rparr>)
             (filter (\<lambda>(c, md, d). P md) (zip cs (zip mds ds))))
       = map fst (filter (\<lambda>(c, md). P md) (zip cs mds))"
  using assms
proof (induction cs arbitrary: mds ds)
  case Nil
  then show ?case by simp
next
  case (Cons c cs)
  then obtain m ms' d ds' where "mds = m # ms'" "ds = d # ds'"
    by (cases mds; cases ds) auto
  with Cons show ?case by simp
qed

lemma store_search_spec:
  assumes "collection_query e qe (top_k request) (where_user (q_user_id request))
             = Inr \<lparr>ids = [cands], metadatas = [mds], distances = [ds]\<rparr>"
      and "length mds = length cands" and "length ds = length cands"
      and "dates_readable e request mds"
  shows "fst (ChromaMemoryStore_search_memories e qe request w)
     = map (\<lambda>(c, md, d). \<lparr>r_id = c, r_score = 1 - d, r_metadata = md,
                                r_summary = or_empty (md_summary md),
                                r_emotions = py_split comma (or_empty (md_emotions md))\<rparr>)
             (filter (\<lambda>(c, md, d). spec_emotion_match (emotion_filter request) md
                        \<and> spec_date_match e (date_from request) (date_to request) md)
                (zip cands (zip mds ds)))"
proof (cases cands)
  case Nil
  with assms(1) show ?thesis
    by (simp add: ChromaMemoryStore_search_memories_def ChromaDBClient_search_memories_def
          collection_query_call_def)
next
  case (Cons c cs)
  have "search_loop e request \<lparr>ids = [cands], metadatas = [mds], distances = [ds]\<rparr> 0 cands
     = Inr (map (\<lambda>(c, md, d). \<lparr>r_id = c, r_score = 1 - d, r_metadata = md,
                                r_summary = or_empty (md_summary md),
                                r_emotions = py_split comma (or_empty (md_emotions md))\<rparr>)
             (filter (\<lambda>(c, md, d). spec_emotion_match (emotion_filter request) md
                        \<and> spec_date_match e (date_from request) (date_to request) md)
                (zip cands (zip (drop 0 mds) (drop 0 ds)))))"
    using assms(2-4) by (intro search_loop_spec [where mrest = "[]" and drest = "[]"]) simp_all
  with Cons assms(1) show ?thesis
    by (simp add: ChromaMemoryStore_search_memories_def ChromaDBClient_search_memories_def
          collection_query_call_def)
qed

text \<open>
  C7. When the engine answers with one metadata and one distance per candidate and the
  conversion loop cannot fail on the creation instants (\<open>dates_readable\<close>), the store
  keeps exactly the candidates that pass the emotion filter and the date range in the
  spec's sense, in the engine's order: an absent or empty emotion filter is no constraint,
  any other filter keeps a candidate iff its emotion set and the filter set intersect. For
  a record whose emotion string was written by the save path from the tag list \<open>es\<close>,
  that is iff \<open>es\<close> and the filter share a tag.
\<close>

theorem emotion_filter_any_match:
  assumes "collection_query e qe (top_k request) (where_user (q_user_id request))
             = Inr \<lparr>ids = [cands], metadatas = [mds], distances = [ds]\<rparr>"
      and "length mds = length cands" and "length ds = length cands"
      and "dates_readable e request mds"
  shows "map r_id (fst (ChromaMemoryStore_search_memories e qe request w))
           = map fst (filter (\<lambda>(c, md). spec_emotion_match (emotion_filter request) md
                        \<and> spec_date_match e (date_from request) (date_to request) md) (zip cands mds))
       \<and> (md_emotions md = Some (py_join comma (map emotion_value es))
            \<longrightarrow> (spec_emotion_match (Some fs) md \<longleftrightarrow> fs = [] \<or> set es \<inter> set fs \<noteq> {}))"
proof
  show "map r_id (fst (ChromaMemoryStore_search_memories e qe request w))
           = map fst (filter (\<lambda>(c, md). spec_emotion_match (emotion_filter request) md
                        \<and> spec_date_match e (date_from request) (date_to request) md) (zip cands mds))"
    unfolding store_search_spec [OF assms]
    using assms(2,3) by (rule ids_of_kept)
  show "md_emotions md = Some (py_join comma (map emotion_value es))
            \<longrightarrow> (spec_emotion_match (Some fs) md \<longleftrightarrow> fs = [] \<or> set es \<inter> set fs \<noteq> {})"
    using saved_record_tags [of md es fs] by (simp add: spec_emotion_match_def)
qed

theorem emotion_filter_any_match_witness:
  "map r_id (fst (ChromaMemoryStore_search_memories
       (quiet_env\<lparr>collection_query := (\<lambda>q k f. Inr three_candidates)\<rparr>) [1]
       (search_for 5 (Some [JOY])) world0)) = [1, 3]
   \<and> map r_id (fst (ChromaMemoryStore_search_memories
       (quiet_env\<lparr>collection_query := (\<lambda>q k f. Inr three_candidates)\<rparr>) [1]
       (search_for 5 (Some [])) world0)) = [1, 2, 3]
   \<and> map r_id (fst (ChromaMemoryStore_search_memories
       (quiet_env\<lparr>collection_query := (\<lambda>q k f. Inr three_candidates)\<rparr>) [1]
       (search_for 5 None) world0)) = [1, 2, 3]
   \<and> map r_id (fst (ChromaMemoryStore_search_memories
       (quiet_env\<lparr>collection_query := (\<lambda>q k f. Inr three_candidates),
                  fromisoformat := (\<lambda>t. Some (int (length t)))\<rparr>) [1]
       ((search_for 5 (Some [JOY]))\<lparr>date_to := Some 0\<rparr>) world0)) = [1, 3]
   \<and> map r_id (fst (ChromaMemoryStore_search_memories
       (quiet_env\<lparr>collection_query := (\<lambda>q k f. Inr three_candidates),
                  fromisoformat := (\<lambda>t. Some (int (length t)))\<rparr>) [1]
       ((search_for 5 (Some [JOY]))\<lparr>date_from := Some 1\<rparr>) world0)) = []"
proof -
  have m: "spec_emotion_match (Some [JOY]) (tagged [JOY, HAPPINESS])"
      "\<not> spec_emotion_match (Some [JOY]) (tagged [SADNESS])"
      "spec_emotion_match (Some [JOY]) (tagged [JOY])"
    by (simp_all add: spec_emotion_match_def record_tags_def tagged_def or_empty_def comma_def)
  have q: "collection_query (quiet_env\<lparr>collection_query := (\<lambda>q k f. Inr three_candidates)\<rparr>) [1]
             (top_k (search_for 5 flt)) (where_user (q_user_id (search_for 5 flt)))
           = Inr \<lparr>ids = [[1, 2, 3]],
                  metadatas = [[tagged [JOY, HAPPINESS], tagged [SADNESS], tagged [JOY]]],
                  distances = [[1 / 10, 1 / 5, 3 / 2]]\<rparr>" for flt
    by (simp add: three_candidates_def)
  have d: "dates_readable e (search_for 5 flt) mds" for e flt mds
    by (simp add: dates_readable_def search_for_def)
  have f: "emotion_filter (search_for 5 flt) = flt" "date_from (search_for 5 flt) = None"
      "date_to (search_for 5 flt) = None" for flt
    by (simp_all add: search_for_def)
  note t = emotion_filter_any_match [OF q _ _ d, THEN conjunct1]
  have 1: "map r_id (fst (ChromaMemoryStore_search_memories
       (quiet_env\<lparr>collection_query := (\<lambda>q k f. Inr three_candidates)\<rparr>) [1]
       (search_for 5 (Some [JOY])) world0)) = [1, 3]"
    using t [of "Some [JOY]" world0] m by (simp add: f spec_date_match_def)
  have 2: "map r_id (fst (ChromaMemoryStore_search_memories
       (quiet_env\<lparr>collection_query := (\<lambda>q k f. Inr three_candidates)\<rparr>) [1]
       (search_for 5 (Some [])) world0)) = [1, 2, 3]"
    using t [of "Some []" world0] by (simp add: f spec_emotion_match_def spec_date_match_def)
  have 3: "map r_id (fst (ChromaMemoryStore_search_memories
       (quiet_env\<lparr>collection_query := (\<lambda>q k f. Inr three_candidates)\<rparr>) [1]
       (search_for 5 None) world0)) = [1, 2, 3]"
    using t [of None world0] by (simp add: f spec_emotion_match_def spec_date_match_def)
  define e2 where "e2 = quiet_env\<lparr>collection_query := (\<lambda>q k f. Inr three_candidates),
                  fromisoformat := (\<lambda>t. Some (int (length t)))\<rparr>"
  have q2: "collection_query e2 [1] (top_k (rq :: SearchRequest)) (where_user (q_user_id rq))
           = Inr \<lparr>ids = [[1, 2, 3]],
                  metadatas = [[tagged [JOY, HAPPINESS], tagged [SADNESS], tagged [JOY]]],
                  distances = [[1 / 10, 1 / 5, 3 / 2]]\<rparr>" for rq
    by (simp add: three_candidates_def e2_def)
  have d2: "dates_readable e2 rq mds" for rq mds
    by (simp add: dates_readable_def e2_def list_all_iff)
  have c: "fromisoformat e2 (or_empty (md_created_at (tagged es))) = Some 0" for es
    by (simp add: e2_def tagged_def or_empty_def)
  note t2 = emotion_filter_any_match [OF q2 _ _ d2, THEN conjunct1]
  have 4: "map r_id (fst (ChromaMemoryStore_search_memories e2 [1]
       ((search_for 5 (Some [JOY]))\<lparr>date_to := Some 0\<rparr>) world0)) = [1, 3]"
    using t2 [of "(search_for 5 (Some [JOY]))\<lparr>date_to := Some 0\<rparr>" world0] m
    by (simp add: f spec_date_match_def c)
  have 5: "map r_id (fst (ChromaMemoryStore_search_memories e2 [1]
       ((search_for 5 (Some [JOY]))\<lparr>date_from := Some 1\<rparr>) world0)) = []"
    using t2 [of "(search_for 5 (Some [JOY]))\<lparr>date_from := Some 1\<rparr>" world0] m
    by (simp add: f spec_date_match_def c)
  show ?thesis using 1 2 3 4 5 by (simp add: e2_def)
qed

lemma client_search_world:
  "snd (ChromaDBClient_search_memories e qe k f w) = w\<lparr>calls := calls w @ [CollectionQuery k f]\<rparr>"
  by (simp add: ChromaDBClient_search_memories_def collection_query_call_def split: sum.splits)

lemma store_search_world:
  "snd (ChromaMemoryStore_search_memories e qe request w)
     = w\<lparr>calls := calls w @ [CollectionQuery (top_k request) (where_user (q_user_id request))]\<rparr>"
proof -
  obtain res w1 where c: "ChromaDBClient_search_memories e qe (top_k request)
             (where_user (q_user_id request)) w = (res, w1)"
    by (cases "ChromaDBClient_search_memories e qe (top_k request) (where_user (q_user_id request)) w")
  then have "snd (ChromaMemoryStore_search_memories e qe request w) = w1"
    by (simp add: ChromaMemoryStore_search_memories_def split: list.splits sum.splits)
  moreover have "w1 = w\<lparr>calls := calls w @ [CollectionQuery (top_k request) (where_user (q_user_id request))]\<rparr>"
    using client_search_world [of e qe "top_k request" "where_user (q_user_id request)" w] c by simp
  ultimately show ?thesis by simp
qed

lemma store_listing_world:
  "snd (ChromaMemoryStore_get_memories_by_filter e uid flt df dt limit offset w)
     = w\<lparr>calls := calls w @ [CollectionQuery (min 1000 (limit * 10)) (where_user uid)]\<rparr>"
proof -
  obtain res w1 where c: "ChromaDBClient_search_memories e (replicate 1536 0) (min 1000 (limit * 10))
             (where_user uid) w = (res, w1)"
    by (cases "ChromaDBClient_search_memories e (replicate 1536 0) (min 1000 (limit * 10)) (where_user uid) w")
  then have "snd (ChromaMemoryStore_get_memories_by_filter e uid flt df dt limit offset w) = w1"
    by (simp add: ChromaMemoryStore_get_memories_by_filter_def split: list.splits sum.splits)
  moreover have "w1 = w\<lparr>calls := calls w @ [CollectionQuery (min 1000 (limit * 10)) (where_user uid)]\<rparr>"
    using client_search_world [of e "replicate 1536 0" "min 1000 (limit * 10)" "where_user uid" w] c
    by simp
  ultimately show ?thesis by simp
qed

text \<open>The listing path asks the engine for \<open>min(1000, 10 * limit)\<close> candidates, which
  is more than \<open>limit\<close> for every limit from 1 to 999 (the endpoint admits 1 to 500).\<close>

lemma listing_overfetches:
  assumes "1 \<le> limit" and "limit < 1000"
  shows "\<exists>n. calls (snd (ChromaMemoryStore_get_memories_by_filter e uid flt df dt limit offset w))
                 = calls w @ [CollectionQuery n (where_user uid)]
              \<and> n = min 1000 (limit * 10) \<and> limit < n"
proof -
  have "limit < min 1000 (limit * 10)" using assms by simp
  then show ?thesis by (simp add: store_listing_world)
qed

text \<open>
  C8 on the code: every search asks the engine for exactly \<open>top_k\<close> candidates, whatever
  exact predicates it applies afterwards, so it does not over-fetch. A search with an
  emotion filter and \<open>top_k = 5\<close> asks for 5 candidates; the listing path of the same
  store, with the same emotion filter and \<open>limit = 5\<close>, asks for 50 before it applies the
  same filters.
\<close>

theorem search_requests_exactly_top_k:
  "calls (snd (ChromaMemoryStore_search_memories e qe request w))
     = calls w @ [CollectionQuery (top_k request) (where_user (q_user_id request))]
   \<and> emotion_filter (search_for 5 (Some [JOY])) = Some [JOY]
   \<and> top_k (search_for 5 (Some [JOY])) = 5
   \<and> calls (snd (ChromaMemoryStore_search_memories quiet_env [1] (search_for 5 (Some [JOY])) world0))
        = [CollectionQuery 5 None]
   \<and> calls (snd (ChromaMemoryStore_get_memories_by_filter quiet_env None (Some [JOY]) None None 5 0 world0))
        = [CollectionQuery 50 None]"
proof -
  have 1: "calls (snd (ChromaMemoryStore_search_memories e qe request w))
     = calls w @ [CollectionQuery (top_k request) (where_user (q_user_id request))]"
    by (simp add: store_search_world)
  have 2: "emotion_filter (search_for 5 (Some [JOY])) = Some [JOY]"
      "top_k (search_for 5 (Some [JOY])) = 5"
    by (simp_all add: search_for_def)
  have 3: "calls (snd (ChromaMemoryStore_search_memories quiet_env [1] (search_for 5 (Some [JOY])) world0))
        = [CollectionQuery 5 None]"
    by (simp add: store_search_world world0_def search_for_def where_user_def or_None_def)
  have 4: "calls (snd (ChromaMemoryStore_get_memories_by_filter quiet_env None (Some [JOY]) None None 5 0 world0))
        = [CollectionQuery 50 None]"
    by (simp add: store_listing_world world0_def where_user_def or_None_def)
  show ?thesis using 1 2 3 4 by simp
qed

text \<open>
  C5 on the code: when \<open>collection.query\<close> raises, the client and the store answer with
  empty results, and the service reports \<open>success = True\<close> with zero results and no
  error, whatever the exception. The claim wants \<open>success = False\<close>.
\<close>

theorem store_failure_reported_as_success:
  "MemoryService_search_memories
     (e\<lparr>get_embedding := (\<lambda>t. Inr qe), collection_query := (\<lambda>q k f. Inl x)\<rparr>) request w
   = (\<lparr>s_success = True, s_results = [], s_total_count = 0, s_error = None\<rparr>,
      w\<lparr>calls := calls w @ [Embedder (query request),
                             CollectionQuery (top_k request) (where_user (q_user_id request))]\<rparr>)"
  by (simp add: MemoryService_search_memories_def embedding_client_get_embedding_def
        ChromaMemoryStore_search_memories_def ChromaDBClient_search_memories_def
        collection_query_call_def)

text \<open>
  C2 on the code: the score is \<open>1 - distance\<close> and nothing clamps it. For candidates at
  distances 1/10, 1/5 and 3/2 the scores are 9/10, 4/5 and -1/2; the last is below 0.
\<close>

theorem score_below_zero:
  "map r_score (fst (ChromaMemoryStore_search_memories
       (quiet_env\<lparr>collection_query := (\<lambda>q k f. Inr three_candidates)\<rparr>) [1]
       (search_for 5 None) world0)) = [9 / 10, 4 / 5, - (1 / 2)]"
  by (simp add: ChromaMemoryStore_search_memories_def ChromaDBClient_search_memories_def
        collection_query_call_def three_candidates_def search_for_def and_then_def getitem_def
        passes_filters_def Let_def)

section \<open>Properties of the input validation\<close>

lemma strip_eq_Nil: "strip s = [] \<longleftrightarrow> (\<forall>c\<in>set s. isspace c)"
proof
  assume "strip s = []"
  then have "dropWhile isspace (rev (dropWhile isspace s)) = []" by (simp add: strip_def)
  then have "\<forall>c\<in>set (dropWhile isspace s). isspace c"
    by (simp add: dropWhile_eq_Nil_conv)
  then have "dropWhile isspace s = []"
    by (metis hd_dropWhile list.set_sel(1))
  then show "\<forall>c\<in>set s. isspace c" by (simp add: dropWhile_eq_Nil_conv)
next
  assume "\<forall>c\<in>set s. isspace c"
  then have d: "dropWhile isspace s = []" by (simp add: dropWhile_eq_Nil_conv)
  show "strip s = []" by (simp only: strip_def d rev.simps dropWhile.simps)
qed

lemma strip_empty: "strip [] = []"
  by (simp add: strip_def)

lemma save_rejects_before_service:
  assumes "strip (user_message request) = [] \<or> strip (ai_message request) = []
           \<or> length (user_message request) > 10000 \<or> length (ai_message request) > 10000"
  shows "\<exists>d. save_memory svc request w = (Inl (HTTPException 400 d), w)"
  using assms by (auto simp: save_memory_def)

lemma search_rejects_before_service:
  assumes "strip (query request) = [] \<or> length (query request) > 1000"
  shows "\<exists>d. search_memories svc check_iso request w = (Inl (HTTPException 400 d), w)"
  using assms by (auto simp: search_memories_def)

lemma validate_requests_empty_message:
  assumes "request \<in> set requests"
      and "strip (user_message request) = [] \<or> strip (ai_message request) = []"
  shows "\<exists>d. validate_requests i requests = Some (HTTPException 400 d)"
  using assms by (induction requests arbitrary: i) auto

lemma batch_save_rejects_empty_message:
  assumes "request \<in> set requests"
      and "strip (user_message request) = [] \<or> strip (ai_message request) = []"
  shows "\<exists>d. batch_save_memories svc requests w = (Inl (HTTPException 400 d), w)"
proof -
  obtain d where "validate_requests 0 requests = Some (HTTPException 400 d)"
    using validate_requests_empty_message [OF assms] by blast
  then show ?thesis by (auto simp: batch_save_memories_def)
qed

lemma validate_queries_bad_query:
  assumes "q \<in> set queries" and "strip q = [] \<or> length q > 1000"
  shows "\<exists>d. validate_queries i queries = Some (HTTPException 400 d)"
  using assms by (induction queries arbitrary: i) auto

lemma batch_search_rejects_bad_query:
  assumes "q \<in> set queries" and "strip q = [] \<or> length q > 1000"
  shows "\<exists>d. batch_search_memories svc queries k uid w = (Inl (HTTPException 400 d), w)"
proof -
  obtain d where "validate_queries 0 queries = Some (HTTPException 400 d)"
    using validate_queries_bad_query [OF assms] by blast
  then have "\<exists>d. batch_search_preflight queries k = Some (HTTPException 400 d)"
    by (auto simp: batch_search_preflight_def)
  then show ?thesis by (auto simp: batch_search_memories_def)
qed

lemma oversized_request_not_blank:
  "strip (user_message oversized_request) \<noteq> []" "strip (ai_message oversized_request) \<noteq> []"
  "length (user_message oversized_request) = 10001"
  by (simp_all add: strip_eq_Nil oversized_request_def plain_request_def isspace_def)

text \<open>
  C4 on the code: the single save, the single search and the batch search reject an empty
  or oversized input before the service is called, and the batch save rejects an empty
  message (the lemmas above). The batch save has no length check: a request whose user
  message is 10,001 characters long is refused by the single save with no call made, and
  is saved by the batch save, whose summarizer, embedder and store calls all receive it.
\<close>

theorem batch_save_oversized_reaches_summarizer:
  "length (user_message oversized_request) = 10001
   \<and> (\<exists>rule. fst (save_memory (service_save quiet_env) oversized_request world0)
                = Inl (HTTPException 400 rule))
   \<and> calls (snd (save_memory (service_save quiet_env) oversized_request world0)) = []
   \<and> (\<exists>report. fst (batch_save_memories (service_save quiet_env) [oversized_request] world0)
                  = Inr report \<and> successful_saves report = 1 \<and> b_success report)
   \<and> calls (snd (batch_save_memories (service_save quiet_env) [oversized_request] world0))
       = [Uuid4 0,
          Summarizer \<lparr>llm_user_message = replicate 10001 120, llm_ai_message = [111, 107],
                      llm_context_window = None, llm_session_id = None, llm_user_id = None\<rparr>,
          Embedder ([115] @ [32] @ replicate 10001 120 @ [32] @ [111, 107]),
          CollectionAdd 0]"
proof -
  have s: "fst (save_memory (service_save quiet_env) oversized_request world0)
             = Inl (HTTPException 400 User_message_too_long)"
      "calls (snd (save_memory (service_save quiet_env) oversized_request world0)) = []"
    using oversized_request_not_blank by (simp_all add: save_memory_def world0_def)
  have sv: "service_save quiet_env oversized_request world0
      = (Inr \<lparr>success = True, memory_id = Some 0, summary = Some [115],
               emotions = Some [JOY], error = None\<rparr>,
         \<lparr>calls = [Uuid4 0,
            Summarizer \<lparr>llm_user_message = replicate 10001 120, llm_ai_message = [111, 107],
                      llm_context_window = None, llm_session_id = None, llm_user_id = None\<rparr>,
            Embedder ([115] @ [32] @ replicate 10001 120 @ [32] @ [111, 107]),
            CollectionAdd 0],
           stored = [(0, \<lparr>md_summary = Some [115],
                md_emotions = Some (emotion_value JOY),
                md_user_id = Some [], md_session_id = Some [], md_app_name = Some [],
                md_created_at = Some [],
                md_original_user = Some (replicate 10001 120),
                md_original_ai = Some [111, 107]\<rparr>, [1])],
           next_uuid = Suc 0\<rparr>)"
    by (simp add: service_save_def MemoryService_save_memory_def uuid4_def
          llm_client_process_memory_def embedding_client_get_embedding_def
          ChromaMemoryStore_save_memory_def ChromaDBClient_add_memory_def
          collection_add_call_def quiet_env_def world0_def oversized_request_def
          plain_request_def or_empty_def Let_def)
  have b: "fst (batch_save_memories (service_save quiet_env) [oversized_request] world0)
             = Inr \<lparr>b_success = True, total_requested = 1, successful_saves = 1, failed_saves = 0,
                   results = [\<lparr>index = 0, i_success = True, i_memory_id = Some 0,
                               i_summary = Some [115], i_emotions = [emotion_value JOY],
                               i_error = None\<rparr>],
                   total_emotions_detected = 1\<rparr>"
      "calls (snd (batch_save_memories (service_save quiet_env) [oversized_request] world0))
       = [Uuid4 0,
          Summarizer \<lparr>llm_user_message = replicate 10001 120, llm_ai_message = [111, 107],
                      llm_context_window = None, llm_session_id = None, llm_user_id = None\<rparr>,
          Embedder ([115] @ [32] @ replicate 10001 120 @ [32] @ [111, 107]),
          CollectionAdd 0]"
    using oversized_request_not_blank
    by (simp_all add: batch_save_memories_def save_single_memory_def sv)
  show ?thesis using s b oversized_request_not_blank(3) by simp
qed


lemma schema_accepts_top_k:
  "(\<exists>request. SearchRequest_validate body = Inr request)
     \<longleftrightarrow> (case body_top_k body of None \<Rightarrow> True | Some k \<Rightarrow> 1 \<le> k \<and> k \<le> 20)"
  by (simp add: SearchRequest_validate_def Let_def split: option.splits)

lemma schema_default_top_k:
  "body_top_k body = None \<Longrightarrow> \<exists>request. SearchRequest_validate body = Inr request \<and> top_k request = 5"
  by (simp add: SearchRequest_validate_def)

lemma endpoint_rejects_top_k:
  assumes "strip (query request) \<noteq> []" and "length (query request) \<le> 1000"
  shows "search_memories svc check_iso request w = (Inl (HTTPException 400 Top_k_not_1_to_100), w)
           \<longleftrightarrow> top_k request < 1 \<or> top_k request > 100"
  using assms
  by (auto simp: search_memories_def date_check_def split: option.splits prod.splits sum.splits)

lemma batch_search_accepts_top_k:
  assumes "queries \<noteq> []" and "length queries \<le> 50" and "validate_queries 0 queries = None"
  shows "batch_search_preflight queries k = None \<longleftrightarrow> 1 \<le> k \<and> k \<le> 20"
  using assms by (auto simp: batch_search_preflight_def)

text \<open>
  C9 on the code: the endpoint function of the single search accepts \<open>top_k\<close> from 1 to
  100 and the batch search from 1 to 20 (the lemmas above), but the schema the single
  search's body is validated against declares \<open>le=20\<close>. A body with \<open>top_k = 50\<close> is
  refused with status 422 before the endpoint function runs, although the function would
  answer it.
\<close>

theorem top_k_50_rejected_by_schema:
  "body_top_k body_top_k_50 = Some 50
   \<and> post_search svc check_iso body_top_k_50 w = (Inl (HTTPException 422 Request_validation), w)
   \<and> fst (search_memories (service_search quiet_env) (\<lambda>d. None) (search_for 50 None) world0)
       = Inr \<lparr>s_success = True, s_results = [], s_total_count = 0, s_error = None\<rparr>"
  by (simp add: post_search_def SearchRequest_validate_def body_top_k_50_def
        search_memories_def search_for_def strip_def isspace_def date_check_def
        service_search_def MemoryService_search_memories_def embedding_client_get_embedding_def
        ChromaMemoryStore_search_memories_def ChromaDBClient_search_memories_def
        collection_query_call_def quiet_env_def world0_def)

end
